theory Spec2Isabelle
  imports Main "HOL-Library.Word"
begin

unbundle bit_operations_syntax

section \<open>Dxgkrnl VM bus interface (dxgvmbus.c): a shallow embedding\<close>

text \<open>
  The embedding follows \<^verbatim>\<open>dxgvmbus.c\<close>.  Values of type \<^verbatim>\<open>u32\<close> that only carry
  sizes and counts are natural numbers with the truncation to 32 bits written out
  (\<open>u32\<close> below); status words, addresses and page records are machine words.
  Calls into the rest of the kernel (allocators, the transport, the handle table, the
  memory manager) are recorded as events in a trace, and what they return is taken from
  an environment record given to each encoder.
\<close>

subsection \<open>Linux error numbers\<close>

definition EPERM :: int where "EPERM = 1"
definition ENOENT :: int where "ENOENT = 2"
definition EBADF :: int where "EBADF = 9"
definition EAGAIN :: int where "EAGAIN = 11"
definition ENOMEM :: int where "ENOMEM = 12"
definition EACCES :: int where "EACCES = 13"
definition EEXIST :: int where "EEXIST = 17"
definition ENODEV :: int where "ENODEV = 19"
definition EINVAL :: int where "EINVAL = 22"
definition EOVERFLOW :: int where "EOVERFLOW = 75"
definition EPROTOTYPE :: int where "EPROTOTYPE = 91"
definition EOPNOTSUPP :: int where "EOPNOTSUPP = 95"
definition EINPROGRESS :: int where "EINPROGRESS = 115"
definition ENOTRECOVERABLE :: int where "ENOTRECOVERABLE = 131"

subsection \<open>Status translator: \<^verbatim>\<open>ntstatus2int\<close>\<close>

text \<open>
  \<^verbatim>\<open>struct ntstatus\<close> carries the 32-bit signed value \<^verbatim>\<open>v\<close>.  The \<^verbatim>\<open>STATUS_*\<close> constants
  are defined in \<^verbatim>\<open>dxgkrnl.h\<close>, which is not part of the sources at hand, so the
  translator takes them as a parameter.
\<close>

type_synonym ntstatus = "32 word"

record status_codes =
  STATUS_OBJECT_NAME_COLLISION :: ntstatus
  STATUS_NO_MEMORY :: ntstatus
  STATUS_INVALID_PARAMETER :: ntstatus
  STATUS_OBJECT_NAME_INVALID :: ntstatus
  STATUS_OBJECT_NAME_NOT_FOUND :: ntstatus
  STATUS_TIMEOUT :: ntstatus
  STATUS_BUFFER_TOO_SMALL :: ntstatus
  STATUS_DEVICE_REMOVED :: ntstatus
  STATUS_ACCESS_DENIED :: ntstatus
  STATUS_NOT_SUPPORTED :: ntstatus
  STATUS_ILLEGAL_INSTRUCTION :: ntstatus
  STATUS_INVALID_HANDLE :: ntstatus
  STATUS_GRAPHICS_ALLOCATION_BUSY :: ntstatus
  STATUS_OBJECT_TYPE_MISMATCH :: ntstatus
  STATUS_NOT_IMPLEMENTED :: ntstatus

text \<open>
  Modelled from the spec: the macro \<^verbatim>\<open>NT_SUCCESS\<close> (\<^verbatim>\<open>dxgkrnl.h\<close>).  The translator's
  output is "a negative POSIX-style error code, or a non-negative success/pending
  code", and a successful status passes its raw value through: a status is a success
  exactly when its signed value is not negative.
\<close>

definition NT_SUCCESS :: "ntstatus \<Rightarrow> bool" where
  "NT_SUCCESS status \<longleftrightarrow> 0 \<le> sint status"

text \<open>The \<^verbatim>\<open>switch\<close> of \<^verbatim>\<open>ntstatus2int\<close>, label by label in the order of the source.\<close>

definition ntstatus2int :: "status_codes \<Rightarrow> ntstatus \<Rightarrow> int" where
  "ntstatus2int c status =
     (if NT_SUCCESS status then sint status
      else if status = STATUS_OBJECT_NAME_COLLISION c then - EEXIST
      else if status = STATUS_NO_MEMORY c then - ENOMEM
      else if status = STATUS_INVALID_PARAMETER c then - EINVAL
      else if status = STATUS_OBJECT_NAME_INVALID c
            \<or> status = STATUS_OBJECT_NAME_NOT_FOUND c then - ENOENT
      else if status = STATUS_TIMEOUT c then - EAGAIN
      else if status = STATUS_BUFFER_TOO_SMALL c then - EOVERFLOW
      else if status = STATUS_DEVICE_REMOVED c then - ENODEV
      else if status = STATUS_ACCESS_DENIED c then - EACCES
      else if status = STATUS_NOT_SUPPORTED c then - EPERM
      else if status = STATUS_ILLEGAL_INSTRUCTION c then - EOPNOTSUPP
      else if status = STATUS_INVALID_HANDLE c then - EBADF
      else if status = STATUS_GRAPHICS_ALLOCATION_BUSY c then - EINPROGRESS
      else if status = STATUS_OBJECT_TYPE_MISMATCH c then - EPROTOTYPE
      else if status = STATUS_NOT_IMPLEMENTED c then - EPERM
      else - EINVAL)"

text \<open>The case labels of the \<^verbatim>\<open>switch\<close>; C requires them to be pairwise different.\<close>

definition case_labels :: "status_codes \<Rightarrow> ntstatus list" where
  "case_labels c =
     [STATUS_OBJECT_NAME_COLLISION c, STATUS_NO_MEMORY c, STATUS_INVALID_PARAMETER c,
      STATUS_OBJECT_NAME_INVALID c, STATUS_OBJECT_NAME_NOT_FOUND c, STATUS_TIMEOUT c,
      STATUS_BUFFER_TOO_SMALL c, STATUS_DEVICE_REMOVED c, STATUS_ACCESS_DENIED c,
      STATUS_NOT_SUPPORTED c, STATUS_ILLEGAL_INSTRUCTION c, STATUS_INVALID_HANDLE c,
      STATUS_GRAPHICS_ALLOCATION_BUSY c, STATUS_OBJECT_TYPE_MISMATCH c,
      STATUS_NOT_IMPLEMENTED c]"

text \<open>
  The values Windows gives these names (\<^verbatim>\<open>ntstatus.h\<close>), used as a concrete instance
  of the parameter.
\<close>

definition nt_status_codes :: status_codes where
  "nt_status_codes = \<lparr>
     STATUS_OBJECT_NAME_COLLISION = 0xC0000035,
     STATUS_NO_MEMORY = 0xC0000017,
     STATUS_INVALID_PARAMETER = 0xC000000D,
     STATUS_OBJECT_NAME_INVALID = 0xC0000033,
     STATUS_OBJECT_NAME_NOT_FOUND = 0xC0000034,
     STATUS_TIMEOUT = 0x00000102,
     STATUS_BUFFER_TOO_SMALL = 0xC0000023,
     STATUS_DEVICE_REMOVED = 0xC00002B6,
     STATUS_ACCESS_DENIED = 0xC0000022,
     STATUS_NOT_SUPPORTED = 0xC00000BB,
     STATUS_ILLEGAL_INSTRUCTION = 0xC000001D,
     STATUS_INVALID_HANDLE = 0xC0000008,
     STATUS_GRAPHICS_ALLOCATION_BUSY = 0xC01E0102,
     STATUS_OBJECT_TYPE_MISMATCH = 0xC0000024,
     STATUS_NOT_IMPLEMENTED = 0xC0000002 \<rparr>"

text \<open>
  The documented translation table of the status translator, position by position
  against \<open>case_labels\<close>.
\<close>

definition documented_errno :: "int list" where
  "documented_errno =
     [- EEXIST, - ENOMEM, - EINVAL, - ENOENT, - ENOENT, - EAGAIN, - EOVERFLOW, - ENODEV,
      - EACCES, - EPERM, - EOPNOTSUPP, - EBADF, - EINPROGRESS, - EPROTOTYPE, - EPERM]"

subsection \<open>Build-time constants and global state\<close>

text \<open>
  The headers \<^verbatim>\<open>dxgkrnl.h\<close> and \<^verbatim>\<open>dxgvmbus.h\<close> are not part of the sources at hand.
  The limits they define and the sizes of the command structures are parameters of the
  embedding.
\<close>

datatype cstruct =
    Dxgvmb_ext_header
  | Command_setiospaceregion
  | Command_signalsyncobject
  | Command_waitforsyncobjectfromgpu
  | Command_createhwqueue
  | Command_destroyhwqueue
  | Command_getallocationsize
  | Command_getallocationsize_return
  | Command_createallocation
  | Command_createallocation_allocinfo
  | Command_createallocation_return
  | Command_allocinfo_return

record build_consts =
  DXG_MAX_VM_BUS_PACKET_SIZE :: nat
  VMBUSMESSAGEONSTACK :: nat
  DXGK_VMBUS_INTERFACE_VERSION :: nat
  D3DDDI_MAX_OBJECT_WAITED_ON :: nat
  sizeof :: "cstruct \<Rightarrow> nat"

text \<open>
  \<^verbatim>\<open>struct d3dkmthandle\<close> wraps the 32-bit value \<^verbatim>\<open>v\<close>; fence values and RLE records
  are \<^verbatim>\<open>u64\<close>.  Pages are 4 KiB.
\<close>

definition sizeof_d3dkmthandle :: nat where "sizeof_d3dkmthandle = 4"
definition sizeof_u32 :: nat where "sizeof_u32 = 4"
definition sizeof_u64 :: nat where "sizeof_u64 = 8"
definition PAGE_SHIFT :: nat where "PAGE_SHIFT = 12"
definition PAGE_SIZE :: nat where "PAGE_SIZE = 4096"

text \<open>Truncation to \<^verbatim>\<open>u32\<close>, as on every assignment to a \<^verbatim>\<open>u32\<close> variable.\<close>

definition u32 :: "nat \<Rightarrow> nat" where
  "u32 n = n mod 2 ^ 32"

type_synonym d3dkmthandle = "32 word"

record dxgglobal =
  vmbus_ver :: nat
  async_msg_enabled :: bool
  mmiospace_base :: "64 word"
  mmiospace_size :: "64 word"

record dxgadapter =
  adapter_id :: nat
  host_vgpu_luid :: "64 word"

subsection \<open>Messages, packets and the trace of calls\<close>

text \<open>
  The value of \<^verbatim>\<open>msg->channel\<close>: the address of the global channel, the address of
  the channel of an adapter, or \<open>Null_adapter_channel\<close>, the address that
  \<^verbatim>\<open>&adapter->channel\<close> gives for a null \<^verbatim>\<open>adapter\<close>, which is no channel.
\<close>

datatype channel = Global_channel | Adapter_channel nat | Null_adapter_channel

datatype channel_type = DXGKVMB_VGPU_TO_HOST | DXGKVMB_VM_TO_HOST

text \<open>The command types used by the encoders embedded here.\<close>

datatype commandtype =
    DXGK_VMBCOMMAND_SETIOSPACEREGION
  | DXGK_VMBCOMMAND_SIGNALSYNCOBJECT
  | DXGK_VMBCOMMAND_WAITFORSYNCOBJECTFROMGPU
  | DXGK_VMBCOMMAND_CREATEHWQUEUE
  | DXGK_VMBCOMMAND_DESTROYHWQUEUE
  | DXGK_VMBCOMMAND_GETALLOCATIONSIZE
  | DXGK_VMBCOMMAND_CREATEALLOCATION

text \<open>
  The command header written by \<^verbatim>\<open>command_vm_to_host_init1\<close> and
  \<^verbatim>\<open>command_vgpu_to_host_init2\<close>.
\<close>

record command_hdr =
  command_type :: commandtype
  process :: d3dkmthandle
  command_id :: nat
  hdr_channel_type :: channel_type
  async_msg :: bool

definition command_vm_to_host_init1 :: "commandtype \<Rightarrow> command_hdr" where
  "command_vm_to_host_init1 t =
     \<lparr> command_type = t, process = 0, command_id = 0,
       hdr_channel_type = DXGKVMB_VM_TO_HOST, async_msg = False \<rparr>"

definition command_vgpu_to_host_init2 :: "commandtype \<Rightarrow> d3dkmthandle \<Rightarrow> command_hdr" where
  "command_vgpu_to_host_init2 t p =
     \<lparr> command_type = t, process = p, command_id = 0,
       hdr_channel_type = DXGKVMB_VGPU_TO_HOST, async_msg = False \<rparr>"

text \<open>
  The variable part of a packet, item by item in the order written: arrays of
  handles, arrays of 64-bit values, and opaque blobs of a given number of bytes.
\<close>

datatype payload_item = Handles "d3dkmthandle list" | Values64 "64 word list" | Blob nat

fun item_bytes :: "payload_item \<Rightarrow> nat" where
  "item_bytes (Handles hs) = length hs * sizeof_d3dkmthandle"
| "item_bytes (Values64 vs) = length vs * sizeof_u64"
| "item_bytes (Blob n) = n"

definition payload_bytes :: "payload_item list \<Rightarrow> nat" where
  "payload_bytes ss = sum_list (map item_bytes ss)"

text \<open>
  What \<^verbatim>\<open>init_message\<close> leaves in \<^verbatim>\<open>struct dxgvmbusmsg\<close>: the total size, whether
  the buffer is the inline one or comes from \<^verbatim>\<open>kzalloc\<close>, the extended header
  (\<^verbatim>\<open>command_offset\<close>, \<^verbatim>\<open>vgpu_luid\<close>) when the protocol version asks for one, and
  the channel.
\<close>

record dxgvmbusmsg =
  msg_size :: nat
  msg_on_heap :: bool
  msg_ext_hdr :: "(nat \<times> 64 word) option"
  msg_channel :: channel

text \<open>A packet handed to the transport: the message, its command and its payload.\<close>

record packet =
  pkt_msg :: dxgvmbusmsg
  pkt_hdr :: command_hdr
  pkt_object_count :: nat
  pkt_context_count :: nat
  pkt_payload :: "payload_item list"

datatype hmgrentry_type = HMGRENTRY_TYPE_DXGHWQUEUE | HMGRENTRY_TYPE_MONITOREDFENCE

datatype event =
    Kzalloc nat
  | Vzalloc nat
  | Acquire_channel_lock
  | Release_channel_lock
  | Send_sync_msg channel packet
  | Send_async_msg channel packet
  | Hmgr_assign hmgrentry_type d3dkmthandle
  | Hmgr_free hmgrentry_type d3dkmthandle
  | Vm_mmap nat
  | Io_remap_pfn_range "64 word" nat
  | Vm_munmap "64 word" nat


subsection \<open>Message builder: \<^verbatim>\<open>init_message\<close> and \<^verbatim>\<open>init_message_res\<close>\<close>

text \<open>
  \<open>kzalloc_ok\<close> is what the allocator answers when it is asked.  The inline buffer
  is used up to \<^verbatim>\<open>VMBUSMESSAGEONSTACK\<close> bytes.
\<close>

definition init_message ::
  "build_consts \<Rightarrow> dxgglobal \<Rightarrow> bool \<Rightarrow> dxgadapter option \<Rightarrow> nat
     \<Rightarrow> event list \<times> (int + dxgvmbusmsg)" where
  "init_message k g kzalloc_ok adapter size0 =
     (let use_ext_header = (vmbus_ver g \<ge> DXGK_VMBUS_INTERFACE_VERSION k);
          size = (if use_ext_header then u32 (size0 + sizeof k Dxgvmb_ext_header) else size0);
          on_stack = (size \<le> VMBUSMESSAGEONSTACK k);
          ev = (if on_stack then [] else [Kzalloc size])
      in if \<not> on_stack \<and> \<not> kzalloc_ok then (ev, Inl (- ENOMEM))
         else (ev, Inr \<lparr>
           msg_size = size,
           msg_on_heap = (\<not> on_stack),
           msg_ext_hdr =
             (if use_ext_header
              then Some (sizeof k Dxgvmb_ext_header,
                         (case adapter of None \<Rightarrow> 0 | Some a \<Rightarrow> host_vgpu_luid a))
              else None),
           msg_channel =
             (case adapter of
                Some a \<Rightarrow> if \<not> async_msg_enabled g then Adapter_channel (adapter_id a)
                          else Global_channel
              | None \<Rightarrow> Global_channel) \<rparr>))"



subsection \<open>The transport\<close>

text \<open>
  \<^verbatim>\<open>dxgvmb_send_sync_msg\<close> and \<^verbatim>\<open>dxgvmb_send_async_msg\<close> are outside this file.  A
  \<open>transport\<close> record holds what one call returns: the return value of the synchronous
  send, the status word the host left in the result buffer, and the return value of
  the asynchronous send.
\<close>

record transport =
  sync_ret :: int
  sync_status :: ntstatus
  async_ret :: int

text \<open>
  \<^verbatim>\<open>dxgvmb_send_sync_msg_ntstatus\<close> allocates the status word, sends, and translates
  the status when the send did not fail.  The source does not test the allocation of the
  status word; the embedding takes it to succeed.
\<close>

definition dxgvmb_send_sync_msg_ntstatus ::
  "status_codes \<Rightarrow> transport \<Rightarrow> channel \<Rightarrow> packet \<Rightarrow> event list \<times> int" where
  "dxgvmb_send_sync_msg_ntstatus c t ch pkt =
     ([Kzalloc 4, Send_sync_msg ch pkt],
      if sync_ret t \<ge> 0 then ntstatus2int c (sync_status t) else sync_ret t)"

subsection \<open>Memory window mapper\<close>

text \<open>
  \<^verbatim>\<open>check_iospace_address\<close>: the address is \<^verbatim>\<open>unsigned long\<close>, the size \<^verbatim>\<open>u32\<close>, and
  the window bounds are 64-bit fields of \<^verbatim>\<open>dxgglobal\<close>; the arithmetic is unsigned
  64-bit arithmetic.
\<close>

definition check_iospace_address :: "dxgglobal \<Rightarrow> 64 word \<Rightarrow> nat \<Rightarrow> int" where
  "check_iospace_address g address sz =
     (if address < mmiospace_base g \<or>
         (of_nat sz :: 64 word) > mmiospace_size g \<or>
         address \<ge> mmiospace_base g + mmiospace_size g - of_nat sz
      then - EINVAL else 0)"

text \<open>
  What the memory manager answers: whether \<^verbatim>\<open>current->mm\<close> is set, the value returned by
  \<^verbatim>\<open>vm_mmap\<close>, whether \<^verbatim>\<open>find_vma\<close> finds the area, and the return values of
  \<^verbatim>\<open>io_remap_pfn_range\<close> and \<^verbatim>\<open>vm_munmap\<close>.
\<close>

record mm_env =
  current_mm :: bool
  vm_mmap_ret :: "64 word"
  find_vma_ok :: bool
  io_remap_ret :: int
  vm_munmap_ret :: int

definition PAGE_MASK :: "64 word" where
  "PAGE_MASK = NOT (of_nat PAGE_SIZE - 1)"

definition dxg_unmap_iospace :: "mm_env \<Rightarrow> 64 word \<Rightarrow> nat \<Rightarrow> event list \<times> int" where
  "dxg_unmap_iospace env va sz =
     (let page_addr = va AND PAGE_MASK
      in if current_mm env
         then ([Vm_munmap page_addr sz],
               if vm_munmap_ret env \<noteq> 0 then - ENOTRECOVERABLE else 0)
         else ([], 0))"

text \<open>The result is \<open>None\<close> for \<^verbatim>\<open>NULL\<close>.\<close>

definition dxg_map_iospace ::
  "dxgglobal \<Rightarrow> mm_env \<Rightarrow> 64 word \<Rightarrow> nat \<Rightarrow> bool \<Rightarrow> event list \<times> 64 word option" where
  "dxg_map_iospace g env iospace_address sz cached =
     (if check_iospace_address g iospace_address sz < 0 then ([], None)
      else
        let va = vm_mmap_ret env
        in if sint va \<le> 0 then ([Vm_mmap sz], None)
           else
             let vm_pgoff = drop_bit PAGE_SHIFT iospace_address;
                 (ev, ret) =
                   (if find_vma_ok env
                    then ([Io_remap_pfn_range vm_pgoff sz], io_remap_ret env)
                    else ([], - ENOMEM))
             in if ret \<noteq> 0
                then (Vm_mmap sz # ev @ fst (dxg_unmap_iospace env va sz), None)
                else (Vm_mmap sz # ev,
                      Some (va + iospace_address mod of_nat PAGE_SIZE)))"

subsection \<open>Global messages: \<^verbatim>\<open>dxgvmb_send_set_iospace_region\<close>\<close>

text \<open>
  \<open>lock_ret\<close> is the return value of \<^verbatim>\<open>dxgglobal_acquire_channel_lock\<close>; the event
  \<open>Acquire_channel_lock\<close> records that the lock was taken.  Every encoder returns its
  \<^verbatim>\<open>int\<close> result and the trace of its calls.  The arguments \<^verbatim>\<open>start\<close>, \<^verbatim>\<open>len\<close> and
  \<^verbatim>\<open>shared_mem_gpadl\<close> fill fixed fields of the command structure and do not change
  the calls made; the packet record keeps the header only.  The send goes to
  \<^verbatim>\<open>&dxgglobal->channel\<close> directly.
\<close>

record iospace_env =
  ior_kzalloc_ok :: bool
  ior_lock_ret :: int
  ior_transport :: transport

definition dxgvmb_send_set_iospace_region ::
  "build_consts \<Rightarrow> status_codes \<Rightarrow> dxgglobal \<Rightarrow> iospace_env \<Rightarrow> int \<times> event list" where
  "dxgvmb_send_set_iospace_region k c g env =
     (case init_message k g (ior_kzalloc_ok env) None (sizeof k Command_setiospaceregion) of
        (ev, Inl e) \<Rightarrow> (e, ev)
      | (ev, Inr msg) \<Rightarrow>
          if ior_lock_ret env < 0 then (ior_lock_ret env, ev)
          else
            let pkt = \<lparr> pkt_msg = msg,
                        pkt_hdr = command_vm_to_host_init1 DXGK_VMBCOMMAND_SETIOSPACEREGION,
                        pkt_object_count = 0, pkt_context_count = 0, pkt_payload = [] \<rparr>;
                (sev, ret) = dxgvmb_send_sync_msg_ntstatus c (ior_transport env) Global_channel pkt
            in (ret, ev @ [Acquire_channel_lock] @ sev @ [Release_channel_lock]))"

subsection \<open>Bulk signal and wait: \<^verbatim>\<open>dxgvmb_send_signal_sync_object\<close>,
  \<^verbatim>\<open>dxgvmb_send_wait_sync_object_gpu\<close>\<close>

text \<open>
  The arguments of \<^verbatim>\<open>dxgvmb_send_signal_sync_object\<close>.  The arrays behind the pointers
  are lists; \<open>ss_fences\<close> is \<open>None\<close> for a null \<^verbatim>\<open>fences\<close> pointer.  A copy of
  \<open>n\<close> bytes takes the elements that fit in \<open>n\<close> bytes.
\<close>

record signal_args =
  ss_context :: d3dkmthandle
  ss_object_count :: nat
  ss_objects :: "d3dkmthandle list"
  ss_context_count :: nat
  ss_contexts :: "d3dkmthandle list"
  ss_fence_count :: nat
  ss_fences :: "64 word list option"
  ss_user_address :: bool

record signal_env =
  ss_kzalloc_ok :: bool
  ss_copy_objects_ok :: bool
  ss_copy_contexts_ok :: bool
  ss_copy_fences_ok :: bool
  ss_transport :: transport

definition signal_cmd_size :: "build_consts \<Rightarrow> signal_args \<Rightarrow> nat" where
  "signal_cmd_size k a =
     (let object_size = u32 (ss_object_count a * sizeof_d3dkmthandle);
          context_size = u32 (ss_context_count a * sizeof_d3dkmthandle);
          fence_size = (if ss_fences a \<noteq> None then u32 (ss_fence_count a * sizeof_u64) else 0);
          cmd_size = u32 (sizeof k Command_signalsyncobject + object_size + context_size
                            + fence_size)
      in if ss_context a \<noteq> 0 then u32 (cmd_size + sizeof_d3dkmthandle) else cmd_size)"

definition dxgvmb_send_signal_sync_object ::
  "build_consts \<Rightarrow> status_codes \<Rightarrow> dxgglobal \<Rightarrow> signal_env \<Rightarrow> dxgadapter option
     \<Rightarrow> d3dkmthandle \<Rightarrow> signal_args \<Rightarrow> int \<times> event list" where
  "dxgvmb_send_signal_sync_object k c g env adapter process_host_handle a =
     (let object_size = u32 (ss_object_count a * sizeof_d3dkmthandle);
          context_size = u32 (ss_context_count a * sizeof_d3dkmthandle);
          fence_size = (if ss_fences a \<noteq> None then u32 (ss_fence_count a * sizeof_u64) else 0);
          cmd_size = signal_cmd_size k a
      in case init_message k g (ss_kzalloc_ok env) adapter cmd_size of
           (ev, Inl e) \<Rightarrow> (e, ev)
         | (ev, Inr msg) \<Rightarrow>
             if ss_user_address a \<and> \<not> ss_copy_objects_ok env then (- EINVAL, ev)
             else
               let p1 = [Handles (take (object_size div sizeof_d3dkmthandle) (ss_objects a))];
                   context_count = (if ss_context a \<noteq> 0 then u32 (ss_context_count a + 1)
                                    else ss_context_count a);
                   p2 = (if ss_context a \<noteq> 0 then p1 @ [Handles [ss_context a]] else p1)
               in if context_size \<noteq> 0 \<and> ss_user_address a \<and> \<not> ss_copy_contexts_ok env
                  then (- EINVAL, ev)
                  else
                    let p3 = (if context_size \<noteq> 0
                              then p2 @ [Handles (take (context_size div sizeof_d3dkmthandle)
                                                    (ss_contexts a))]
                              else p2)
                    in if fence_size \<noteq> 0 \<and> ss_user_address a \<and> \<not> ss_copy_fences_ok env
                       then (- EINVAL, ev)
                       else
                         let p4 = (if fence_size \<noteq> 0
                                   then p3 @ [Values64 (take (fence_size div sizeof_u64)
                                                (case ss_fences a of None \<Rightarrow> [] | Some fs \<Rightarrow> fs))]
                                   else p3);
                             hdr = command_vgpu_to_host_init2 DXGK_VMBCOMMAND_SIGNALSYNCOBJECT
                                     process_host_handle;
                             pkt = \<lparr> pkt_msg = msg, pkt_hdr = hdr,
                                     pkt_object_count = ss_object_count a,
                                     pkt_context_count = context_count,
                                     pkt_payload = p4 \<rparr>
                         in if async_msg_enabled g
                            then (async_ret (ss_transport env),
                                  ev @ [Send_async_msg (msg_channel msg)
                                          (pkt \<lparr> pkt_hdr := hdr \<lparr> async_msg := True \<rparr> \<rparr>)])
                            else
                              let (sev, ret) = dxgvmb_send_sync_msg_ntstatus c (ss_transport env)
                                                 (msg_channel msg) pkt
                              in (ret, ev @ sev))"




subsection \<open>Hardware queue creation: \<^verbatim>\<open>dxgvmb_send_create_hwqueue\<close>\<close>

text \<open>
  The guest-side object \<^verbatim>\<open>struct dxghwqueue\<close>, as far as the encoder touches it; the
  mapped address is \<open>None\<close> for \<^verbatim>\<open>NULL\<close>.
\<close>

record dxghwqueue =
  hwq_handle :: d3dkmthandle
  progress_fence_sync_object :: d3dkmthandle
  progress_fence_mapped_address :: "64 word option"

record createhwqueue_args =
  hq_priv_drv_data_size :: nat
  hq_context :: d3dkmthandle

text \<open>
  The command buffer is also the result buffer of the send.  These are the fields the
  encoder reads from it afterwards.
\<close>

record createhwqueue_reply =
  rp_status :: ntstatus
  rp_hwqueue :: d3dkmthandle
  rp_hwqueue_progress_fence :: d3dkmthandle
  rp_hwqueue_progress_fence_cpuva :: "64 word"

text \<open>
  What the rest of the kernel answers during one call: the allocator, the copies from
  and to user memory, the transport (return value and the buffer it leaves), the two
  \<^verbatim>\<open>hmgrtable_assign_handle_safe\<close> calls, the memory manager, and the allocator and
  transport of the compensating \<^verbatim>\<open>dxgvmb_send_destroy_hwqueue\<close>.  \<open>Hmgr_assign\<close> is
  recorded for a registration that succeeded.
\<close>

record createhwqueue_env =
  hq_kzalloc_ok :: bool
  hq_copy_from_user_ok :: bool
  hq_send_ret :: int
  hq_reply :: createhwqueue_reply
  hq_assign_queue_ret :: int
  hq_assign_fence_ret :: int
  hq_mm :: mm_env
  hq_copy_queue_ok :: bool
  hq_copy_fence_ok :: bool
  hq_copy_cpu_va_ok :: bool
  hq_copy_gpu_va_ok :: bool
  hq_copy_priv_ok :: bool
  hq_destroy_kzalloc_ok :: bool
  hq_destroy_transport :: transport

definition dxgvmb_send_destroy_hwqueue ::
  "build_consts \<Rightarrow> status_codes \<Rightarrow> dxgglobal \<Rightarrow> bool \<Rightarrow> transport \<Rightarrow> dxgadapter option
     \<Rightarrow> d3dkmthandle \<Rightarrow> d3dkmthandle \<Rightarrow> int \<times> event list" where
  "dxgvmb_send_destroy_hwqueue k c g kzalloc_ok t adapter process_host_handle handle =
     (case init_message k g kzalloc_ok adapter (sizeof k Command_destroyhwqueue) of
        (ev, Inl e) \<Rightarrow> (e, ev)
      | (ev, Inr msg) \<Rightarrow>
          let pkt = \<lparr> pkt_msg = msg,
                      pkt_hdr = command_vgpu_to_host_init2 DXGK_VMBCOMMAND_DESTROYHWQUEUE
                                  process_host_handle,
                      pkt_object_count = 0, pkt_context_count = 0,
                      pkt_payload = [Handles [handle]] \<rparr>;
              (sev, ret) = dxgvmb_send_sync_msg_ntstatus c t (msg_channel msg) pkt
          in (ret, ev @ sev))"

text \<open>
  The \<^verbatim>\<open>cleanup\<close> label.  \<open>command_hwqueue\<close> is \<open>None\<close> while \<^verbatim>\<open>command\<close> is
  \<^verbatim>\<open>NULL\<close>, and the value of \<^verbatim>\<open>command->hwqueue\<close> otherwise.
\<close>

definition create_hwqueue_cleanup ::
  "build_consts \<Rightarrow> status_codes \<Rightarrow> dxgglobal \<Rightarrow> createhwqueue_env \<Rightarrow> dxgadapter option
     \<Rightarrow> d3dkmthandle \<Rightarrow> d3dkmthandle option \<Rightarrow> int \<Rightarrow> event list \<Rightarrow> dxghwqueue
     \<Rightarrow> int \<times> event list \<times> dxghwqueue" where
  "create_hwqueue_cleanup k c g env adapter process_host_handle command_hwqueue ret ev hwqueue =
     (if ret < 0 then
        let (ev1, hwqueue1) =
              (if hwq_handle hwqueue \<noteq> 0
               then (ev @ [Hmgr_free HMGRENTRY_TYPE_DXGHWQUEUE (hwq_handle hwqueue)],
                     hwqueue \<lparr> hwq_handle := 0 \<rparr>)
               else (ev, hwqueue));
            ev2 =
              (case command_hwqueue of
                 None \<Rightarrow> ev1
               | Some h \<Rightarrow>
                   if h \<noteq> 0
                   then ev1 @ snd (dxgvmb_send_destroy_hwqueue k c g (hq_destroy_kzalloc_ok env)
                                    (hq_destroy_transport env) adapter process_host_handle h)
                   else ev1)
        in (ret, ev2, hwqueue1)
      else (ret, ev, hwqueue))"

definition dxgvmb_send_create_hwqueue ::
  "build_consts \<Rightarrow> status_codes \<Rightarrow> dxgglobal \<Rightarrow> createhwqueue_env \<Rightarrow> dxgadapter option
     \<Rightarrow> d3dkmthandle \<Rightarrow> createhwqueue_args \<Rightarrow> dxghwqueue
     \<Rightarrow> int \<times> event list \<times> dxghwqueue" where
  "dxgvmb_send_create_hwqueue k c g env adapter process_host_handle args hwqueue =
     (let cleanup = create_hwqueue_cleanup k c g env adapter process_host_handle
      in if hq_priv_drv_data_size args > DXG_MAX_VM_BUS_PACKET_SIZE k
         then cleanup None (- EINVAL) [] hwqueue
         else
           let cmd_size =
                 (if hq_priv_drv_data_size args \<noteq> 0
                  then u32 (sizeof k Command_createhwqueue + hq_priv_drv_data_size args
                              + 2 ^ 32 - 1)
                  else sizeof k Command_createhwqueue)
           in case init_message k g (hq_kzalloc_ok env) adapter cmd_size of
                (ev, Inl e) \<Rightarrow> cleanup None e ev hwqueue
              | (ev, Inr msg) \<Rightarrow>
                  if hq_priv_drv_data_size args \<noteq> 0 \<and> \<not> hq_copy_from_user_ok env
                  then cleanup (Some 0) (- EINVAL) ev hwqueue
                  else
                    let pkt = \<lparr> pkt_msg = msg,
                                pkt_hdr = command_vgpu_to_host_init2 DXGK_VMBCOMMAND_CREATEHWQUEUE
                                            process_host_handle,
                                pkt_object_count = 0, pkt_context_count = 0,
                                pkt_payload = [Blob (hq_priv_drv_data_size args)] \<rparr>;
                        ev1 = ev @ [Send_sync_msg (msg_channel msg) pkt];
                        command = hq_reply env;
                        cleanup1 = cleanup (Some (rp_hwqueue command))
                    in if hq_send_ret env < 0 then cleanup1 (hq_send_ret env) ev1 hwqueue
                       else if ntstatus2int c (rp_status command) < 0
                       then cleanup1 (ntstatus2int c (rp_status command)) ev1 hwqueue
                       else if hq_assign_queue_ret env < 0
                       then cleanup1 (hq_assign_queue_ret env) ev1 hwqueue
                       else
                         let ev2 = ev1 @ [Hmgr_assign HMGRENTRY_TYPE_DXGHWQUEUE
                                            (rp_hwqueue command)]
                         in if hq_assign_fence_ret env < 0
                            then cleanup1 (hq_assign_fence_ret env) ev2 hwqueue
                            else
                              let ev3 = ev2 @ [Hmgr_assign HMGRENTRY_TYPE_MONITOREDFENCE
                                                 (rp_hwqueue_progress_fence command)];
                                  (mev, va) = dxg_map_iospace g (hq_mm env)
                                                (rp_hwqueue_progress_fence_cpuva command)
                                                PAGE_SIZE True;
                                  hwqueue1 = hwqueue \<lparr>
                                    hwq_handle := rp_hwqueue command,
                                    progress_fence_sync_object :=
                                      rp_hwqueue_progress_fence command,
                                    progress_fence_mapped_address := va \<rparr>;
                                  ev4 = ev3 @ mev
                              in if va = None then cleanup1 (- ENOMEM) ev4 hwqueue1
                                 else if \<not> hq_copy_queue_ok env
                                 then cleanup1 (- EINVAL) ev4 hwqueue1
                                 else if \<not> hq_copy_fence_ok env
                                 then cleanup1 (- EINVAL) ev4 hwqueue1
                                 else if \<not> hq_copy_cpu_va_ok env
                                 then cleanup1 (- EINVAL) ev4 hwqueue1
                                 else if \<not> hq_copy_gpu_va_ok env
                                 then cleanup1 (- EINVAL) ev4 hwqueue1
                                 else if hq_priv_drv_data_size args \<noteq> 0
                                         \<and> \<not> hq_copy_priv_ok env
                                 then cleanup1 (- EINVAL) ev4 hwqueue1
                                 else cleanup1 0 ev4 hwqueue1)"

subsection \<open>Allocation creation: the run-length encoding of system-memory pages\<close>

text \<open>
  A \<^verbatim>\<open>struct page\<close> is represented by its page frame number, and \<^verbatim>\<open>page_to_phys\<close>
  shifts it by \<^verbatim>\<open>PAGE_SHIFT\<close>.
\<close>

definition page_to_phys :: "64 word \<Rightarrow> 64 word" where
  "page_to_phys pfn = push_bit PAGE_SHIFT pfn"

text \<open>
  The variables of the inner loop of \<^verbatim>\<open>copy_sysmem_pages_rle_data\<close>.  \<open>page_in\<close> is
  the index of the page iterator into the pinned pages, and \<open>rle_records\<close> holds the
  records written through \<^verbatim>\<open>sysmem_pages_rle_dest\<close> for the current allocation; its
  length is \<^verbatim>\<open>alloc_info->sysmem_pages_rle_size\<close>.
\<close>

record rle_state =
  base_page :: "64 word"
  pages_seen :: nat
  page_in :: nat
  sysmem_pages_rle_used :: nat
  rle_records :: "64 word list"

text \<open>
  One iteration of the inner loop, for the counter value \<open>pages_processed\<close>.  The
  result is the value of \<^verbatim>\<open>ret\<close> and the state; a non-zero \<^verbatim>\<open>ret\<close> leaves the loop
  through \<^verbatim>\<open>goto cleanup\<close>.  \<^verbatim>\<open>pages_seen - 1\<close> and \<^verbatim>\<open>npages - 1\<close> are \<^verbatim>\<open>u32\<close>
  subtractions.  The counters \<^verbatim>\<open>sysmem_pages_rle_used\<close> and \<^verbatim>\<open>pages_seen\<close> are
  incremented below the limit and below \<^verbatim>\<open>PAGE_SIZE\<close>, where they do not wrap.
\<close>

definition rle_iteration ::
  "nat \<Rightarrow> 64 word list \<Rightarrow> nat \<Rightarrow> nat \<Rightarrow> rle_state \<Rightarrow> int \<times> rle_state" where
  "rle_iteration sysmem_pages_rle_limit pages npages pages_processed st =
     (let curr_page = page_to_phys (pages ! page_in st);
          base = (if base_page st = 0 then curr_page else base_page st);
          next_page_in = (if pages_processed < u32 (npages + 2 ^ 32 - 1)
                          then page_in st + 1 else page_in st)
      in if (pages_processed \<noteq> 0 \<and>
               curr_page \<noteq> base + of_nat (pages_seen st) * of_nat PAGE_SIZE)
            \<or> pages_seen st = PAGE_SIZE
            \<or> pages_processed = npages
         then
           if sysmem_pages_rle_used st \<ge> sysmem_pages_rle_limit
           then (- EOVERFLOW, st \<lparr> base_page := base \<rparr>)
           else (0, st \<lparr> base_page := curr_page,
                         pages_seen := 1,
                         page_in := next_page_in,
                         sysmem_pages_rle_used := sysmem_pages_rle_used st + 1,
                         rle_records := rle_records st
                            @ [base OR of_nat (u32 (pages_seen st + 2 ^ 32 - 1))] \<rparr>)
         else (0, st \<lparr> base_page := base,
                       pages_seen := pages_seen st + 1,
                       page_in := next_page_in \<rparr>))"

text \<open>
  The inner loop: \<^verbatim>\<open>for (pages_processed = 0; pages_processed <= npages; ++pages_processed)\<close>.
\<close>

function rle_loop ::
  "nat \<Rightarrow> 64 word list \<Rightarrow> nat \<Rightarrow> nat \<Rightarrow> rle_state \<Rightarrow> int \<times> rle_state" where
  "rle_loop sysmem_pages_rle_limit pages npages pages_processed st =
     (if pages_processed \<le> npages
      then (case rle_iteration sysmem_pages_rle_limit pages npages pages_processed st of
              (ret, st') \<Rightarrow>
                if ret \<noteq> 0 then (ret, st')
                else rle_loop sysmem_pages_rle_limit pages npages (pages_processed + 1) st')
      else (0, st))"
  by pat_completeness auto
termination
  by (relation "measure (\<lambda>(l, ps, npages, pages_processed, st). npages + 1 - pages_processed)")
     auto

text \<open>
  The per-allocation input of \<^verbatim>\<open>copy_sysmem_pages_rle_data\<close>: the entry of
  \<^verbatim>\<open>input_alloc_info\<close>, the size the host reported for it, and what pinning gives.
\<close>

record d3dddi_allocationinfo =
  ai_priv_drv_data_size :: nat
  ai_sysmem :: "64 word"

text \<open>
  \<open>pinned\<close> is \<open>None\<close> when \<^verbatim>\<open>vzalloc\<close> fails or \<^verbatim>\<open>get_user_pages_fast\<close> returns an
  error, and \<open>Some ps\<close> when it pins the pages \<open>ps\<close> and returns their number.  That
  number is an \<^verbatim>\<open>int\<close>, so it is below \<open>2 ^ 31\<close>; \<^verbatim>\<open>vzalloc\<close> of zero bytes returns
  \<^verbatim>\<open>NULL\<close>.
\<close>

record sysmem_alloc =
  sa_info :: d3dddi_allocationinfo
  sa_alloc_size :: "64 word"
  sa_pinned :: "64 word list option"

definition sysmem_npages :: "64 word \<Rightarrow> nat" where
  "sysmem_npages curr_alloc_size = u32 (unat (drop_bit PAGE_SHIFT curr_alloc_size))"

text \<open>
  The outer loop, from the allocation at hand on; \<open>used\<close> is
  \<^verbatim>\<open>sysmem_pages_rle_used\<close>.  The result is \<^verbatim>\<open>ret\<close> and, for each allocation reached,
  the records written for it.
\<close>

fun copy_sysmem_allocs ::
  "nat \<Rightarrow> nat \<Rightarrow> sysmem_alloc list \<Rightarrow> int \<times> 64 word list list" where
  "copy_sysmem_allocs sysmem_pages_rle_limit used [] = (0, [])"
| "copy_sysmem_allocs sysmem_pages_rle_limit used (a # rest) =
     (if ai_priv_drv_data_size (sa_info a) \<noteq> 0 \<and> sa_alloc_size a > 0
      then
        let npages = sysmem_npages (sa_alloc_size a)
        in case sa_pinned a of
             None \<Rightarrow> (- ENOMEM, [[]])
           | Some pages \<Rightarrow>
               if npages = 0 \<or> length pages \<noteq> npages \<or> \<not> length pages < 2 ^ 31
               then (- ENOMEM, [[]])
               else
                 (case rle_loop sysmem_pages_rle_limit pages npages 0
                         \<lparr> base_page = 0, pages_seen = 0, page_in = 0,
                           sysmem_pages_rle_used = used, rle_records = [] \<rparr> of
                    (ret, st) \<Rightarrow>
                      if ret \<noteq> 0 then (ret, [rle_records st])
                      else
                        (case copy_sysmem_allocs sysmem_pages_rle_limit
                                (sysmem_pages_rle_used st) rest of
                           (ret', recs) \<Rightarrow> (ret', rle_records st # recs)))
      else
        (case copy_sysmem_allocs sysmem_pages_rle_limit used rest of
           (ret', recs) \<Rightarrow> (ret', [] # recs)))"

definition copy_sysmem_pages_rle_data ::
  "nat \<Rightarrow> sysmem_alloc list \<Rightarrow> int \<times> 64 word list list" where
  "copy_sysmem_pages_rle_data sysmem_pages_rle_limit allocs =
     copy_sysmem_allocs sysmem_pages_rle_limit 0 allocs"

text \<open>
  Reading a record: the low \<^verbatim>\<open>PAGE_SHIFT\<close> bits are the count field, and the record
  stands for one page more than the field says.
\<close>

definition rle_record_pages :: "64 word \<Rightarrow> nat" where
  "rle_record_pages r = unat (r AND mask PAGE_SHIFT) + 1"

definition rle_total_pages :: "64 word list \<Rightarrow> nat" where
  "rle_total_pages rs = sum_list (map rle_record_pages rs)"

definition sysmem_encoded :: "sysmem_alloc \<Rightarrow> bool" where
  "sysmem_encoded a \<longleftrightarrow> ai_priv_drv_data_size (sa_info a) \<noteq> 0 \<and> sa_alloc_size a > 0"

subsection \<open>Allocation creation: \<^verbatim>\<open>dxgvmb_send_get_allocation_size\<close> and
  \<^verbatim>\<open>dxgvmb_send_create_allocation\<close>\<close>

text \<open>
  \<^verbatim>\<open>args->alloc_count\<close> is the length of the \<^verbatim>\<open>alloc_info\<close> array.  The loop that adds
  up the private driver data sizes, from the running total \<open>acc\<close> on:
\<close>

record createallocation_args =
  ca_private_runtime_data_size :: nat
  ca_priv_drv_data_size :: nat

fun total_priv_drv_data_size ::
  "build_consts \<Rightarrow> nat \<Rightarrow> d3dddi_allocationinfo list \<Rightarrow> int + nat" where
  "total_priv_drv_data_size k acc [] = Inr acc"
| "total_priv_drv_data_size k acc (a # rest) =
     (if ai_priv_drv_data_size a \<ge> DXG_MAX_VM_BUS_PACKET_SIZE k then Inl (- EOVERFLOW)
      else
        let acc' = u32 (acc + ai_priv_drv_data_size a)
        in if acc' \<ge> DXG_MAX_VM_BUS_PACKET_SIZE k then Inl (- EOVERFLOW)
           else total_priv_drv_data_size k acc' rest)"

text \<open>
  The loop after the comment "Check for sysmem by the first element. If set, all must
  be sysmem.": it runs from index 1 and fails on an entry whose \<^verbatim>\<open>sysmem\<close> pointer is
  null.
\<close>

definition sysmem_check_fails :: "d3dddi_allocationinfo list \<Rightarrow> bool" where
  "sysmem_check_fails alloc_info \<longleftrightarrow> list_ex (\<lambda>a. ai_sysmem a = 0) (drop 1 alloc_info)"

definition first_is_sysmem :: "d3dddi_allocationinfo list \<Rightarrow> bool" where
  "first_is_sysmem alloc_info \<longleftrightarrow>
     (case alloc_info of [] \<Rightarrow> False | a # _ \<Rightarrow> ai_sysmem a \<noteq> 0)"

text \<open>\<^verbatim>\<open>calculate_max_rle_data_size\<close>, in \<^verbatim>\<open>u64\<close> arithmetic.\<close>

definition calculate_max_rle_data_size :: "64 word list \<Rightarrow> 64 word" where
  "calculate_max_rle_data_size allocation_sizes =
     foldl (\<lambda>num_pages s. num_pages + (s + of_nat PAGE_SIZE - 1) div of_nat PAGE_SIZE)
       0 allocation_sizes * of_nat sizeof_u64"

text \<open>
  What the kernel and the host answer to \<^verbatim>\<open>dxgvmb_send_get_allocation_size\<close>: the
  allocator, the copy of the private data, the return value of the send, and the count,
  status and sizes in the result buffer.
\<close>

record getallocationsize_env =
  gs_kzalloc_ok :: bool
  gs_copy_ok :: bool
  gs_send_ret :: int
  gs_alloc_count :: nat
  gs_status :: ntstatus
  gs_sizes :: "64 word list"

definition dxgvmb_send_get_allocation_size ::
  "build_consts \<Rightarrow> status_codes \<Rightarrow> dxgglobal \<Rightarrow> getallocationsize_env \<Rightarrow> dxgadapter option
     \<Rightarrow> d3dkmthandle \<Rightarrow> d3dddi_allocationinfo list \<Rightarrow> int \<times> event list" where
  "dxgvmb_send_get_allocation_size k c g env adapter process_host_handle alloc_info =
     (case total_priv_drv_data_size k 0 alloc_info of
        Inl e \<Rightarrow> (e, [])
      | Inr priv_drv_data_size \<Rightarrow>
          let cmd_size = u32 (sizeof k Command_getallocationsize
                                + length alloc_info * sizeof_u32 + priv_drv_data_size)
          in if cmd_size > DXG_MAX_VM_BUS_PACKET_SIZE k then (- EOVERFLOW, [])
             else
               (case init_message k g (gs_kzalloc_ok env) adapter cmd_size of
                  (ev, Inl e) \<Rightarrow> (e, ev)
                | (ev, Inr msg) \<Rightarrow>
                    if \<not> gs_copy_ok env then (- EINVAL, ev)
                    else
                      let pkt = \<lparr> pkt_msg = msg,
                                  pkt_hdr = command_vgpu_to_host_init2
                                              DXGK_VMBCOMMAND_GETALLOCATIONSIZE
                                              process_host_handle,
                                  pkt_object_count = 0, pkt_context_count = 0,
                                  pkt_payload = [Blob (length alloc_info * sizeof_u32),
                                                 Blob priv_drv_data_size] \<rparr>;
                          ev1 = ev @ [Send_sync_msg (msg_channel msg) pkt]
                      in if gs_send_ret env < 0 then (gs_send_ret env, ev1)
                         else if gs_alloc_count env \<noteq> length alloc_info
                         then (- EINVAL, ev1)
                         else (ntstatus2int c (gs_status env), ev1)))"

text \<open>
  What the kernel and the host answer to \<^verbatim>\<open>dxgvmb_send_create_allocation\<close>: the two
  \<^verbatim>\<open>vzalloc\<close> calls, the nested size query, the allocator of the message,
  \<^verbatim>\<open>copy_private_data\<close>, the pinning of each allocation's pages, the send and the
  status in its result, and \<^verbatim>\<open>create_local_allocations\<close>.  The page arrays allocated
  while pinning are part of \<open>ca_pinned\<close> and are not recorded in the trace.
\<close>

record createallocation_env =
  ca_vzalloc_result_ok :: bool
  ca_vzalloc_sizes_ok :: bool
  ca_get_size :: getallocationsize_env
  ca_kzalloc_ok :: bool
  ca_copy_private_data_ret :: int
  ca_pinned :: "64 word list option list"
  ca_send_ret :: int
  ca_result_status :: ntstatus
  ca_create_local_ret :: int

text \<open>
  The sizes in the buffer \<^verbatim>\<open>allocation_size_result\<close>: zero as allocated, and what the
  host wrote when the batch is system memory and the query was made.
\<close>

definition allocation_sizes ::
  "createallocation_env \<Rightarrow> d3dddi_allocationinfo list \<Rightarrow> 64 word list" where
  "allocation_sizes env alloc_info =
     (let n = length alloc_info
      in if first_is_sysmem alloc_info
         then take n (gs_sizes (ca_get_size env) @ replicate n 0)
         else replicate n 0)"

definition sysmem_pages_rle_limit_of ::
  "createallocation_env \<Rightarrow> d3dddi_allocationinfo list \<Rightarrow> nat" where
  "sysmem_pages_rle_limit_of env alloc_info =
     (if first_is_sysmem alloc_info
      then u32 (unat (calculate_max_rle_data_size (allocation_sizes env alloc_info)))
      else 0)"

text \<open>
  The value of \<^verbatim>\<open>cmd_size\<close> that is compared with \<^verbatim>\<open>DXG_MAX_VM_BUS_PACKET_SIZE\<close>;
  \<open>priv_drv_data_size\<close> is the total of the first loop.
\<close>

definition create_allocation_cmd_size ::
  "build_consts \<Rightarrow> createallocation_env \<Rightarrow> createallocation_args
     \<Rightarrow> d3dddi_allocationinfo list \<Rightarrow> nat \<Rightarrow> nat" where
  "create_allocation_cmd_size k env args alloc_info priv_drv_data_size =
     (let cmd_size = u32 (sizeof k Command_createallocation
                            + length alloc_info * sizeof k Command_createallocation_allocinfo
                            + ca_private_runtime_data_size args
                            + u32 (priv_drv_data_size + ca_priv_drv_data_size args))
      in if first_is_sysmem alloc_info
         then u32 (cmd_size + sysmem_pages_rle_limit_of env alloc_info)
         else cmd_size)"

text \<open>The part of \<^verbatim>\<open>dxgvmb_send_create_allocation\<close> from \<^verbatim>\<open>init_message\<close> on.\<close>

definition create_allocation_send ::
  "build_consts \<Rightarrow> status_codes \<Rightarrow> dxgglobal \<Rightarrow> createallocation_env \<Rightarrow> dxgadapter option
     \<Rightarrow> d3dkmthandle \<Rightarrow> createallocation_args \<Rightarrow> d3dddi_allocationinfo list \<Rightarrow> nat
     \<Rightarrow> int \<times> event list" where
  "create_allocation_send k c g env adapter process_host_handle args alloc_info
       priv_drv_data_size =
     (let n = length alloc_info;
          cmd_size = create_allocation_cmd_size k env args alloc_info priv_drv_data_size
      in case init_message k g (ca_kzalloc_ok env) adapter cmd_size of
           (ev, Inl e) \<Rightarrow> (e, ev)
         | (ev, Inr msg) \<Rightarrow>
             if ca_copy_private_data_ret env < 0 then (ca_copy_private_data_ret env, ev)
             else
               let (rret, recs) =
                     (if first_is_sysmem alloc_info
                      then copy_sysmem_pages_rle_data (sysmem_pages_rle_limit_of env alloc_info)
                             (map (\<lambda>(a, s, p). \<lparr> sa_info = a, sa_alloc_size = s,
                                                   sa_pinned = p \<rparr>)
                                (zip alloc_info
                                   (zip (allocation_sizes env alloc_info)
                                      (take n (ca_pinned env @ replicate n None)))))
                      else (0, []))
               in if rret < 0 then (rret, ev)
                  else
                    let pkt = \<lparr> pkt_msg = msg,
                                pkt_hdr = command_vgpu_to_host_init2
                                            DXGK_VMBCOMMAND_CREATEALLOCATION
                                            process_host_handle,
                                pkt_object_count = 0, pkt_context_count = 0,
                                pkt_payload =
                                  [Blob (n * sizeof k Command_createallocation_allocinfo),
                                   Blob (ca_private_runtime_data_size args),
                                   Blob (u32 (priv_drv_data_size + ca_priv_drv_data_size args)),
                                   Values64 (concat recs)] \<rparr>;
                        ev1 = ev @ [Send_sync_msg (msg_channel msg) pkt]
                    in if ca_send_ret env < 0 then (ca_send_ret env, ev1)
                       else if ntstatus2int c (ca_result_status env) < 0
                       then (ntstatus2int c (ca_result_status env), ev1)
                       else (ca_create_local_ret env, ev1))"

definition dxgvmb_send_create_allocation ::
  "build_consts \<Rightarrow> status_codes \<Rightarrow> dxgglobal \<Rightarrow> createallocation_env \<Rightarrow> dxgadapter option
     \<Rightarrow> d3dkmthandle \<Rightarrow> createallocation_args \<Rightarrow> d3dddi_allocationinfo list
     \<Rightarrow> int \<times> event list" where
  "dxgvmb_send_create_allocation k c g env adapter process_host_handle args alloc_info =
     (if ca_private_runtime_data_size args \<ge> DXG_MAX_VM_BUS_PACKET_SIZE k \<or>
         ca_priv_drv_data_size args \<ge> DXG_MAX_VM_BUS_PACKET_SIZE k
      then (- EOVERFLOW, [])
      else
        case total_priv_drv_data_size k 0 alloc_info of
          Inl e \<Rightarrow> (e, [])
        | Inr priv_drv_data_size \<Rightarrow>
            if sysmem_check_fails alloc_info then (- EINVAL, [])
            else
              let n = length alloc_info;
                  sysmem = first_is_sysmem alloc_info;
                  result_size = u32 (sizeof k Command_createallocation_return
                                       + u32 (n + 2 ^ 32 - 1) * sizeof k Command_allocinfo_return
                                       + priv_drv_data_size);
                  ev1 = [Vzalloc result_size]
              in if \<not> ca_vzalloc_result_ok env then (- ENOMEM, ev1)
                 else
                   let allocation_size_result_size =
                         u32 (sizeof k Command_getallocationsize_return + n * sizeof_u64);
                       ev2 = ev1 @ [Vzalloc allocation_size_result_size]
                   in if \<not> ca_vzalloc_sizes_ok env then (- ENOMEM, ev2)
                      else
                        let (gret, gev) =
                              (if sysmem
                               then dxgvmb_send_get_allocation_size k c g (ca_get_size env)
                                      adapter process_host_handle alloc_info
                               else (0, []))
                        in if gret < 0 then (gret, ev2 @ gev)
                           else if create_allocation_cmd_size k env args alloc_info
                                     priv_drv_data_size > DXG_MAX_VM_BUS_PACKET_SIZE k
                           then (- EOVERFLOW, ev2 @ gev)
                           else
                             let (ret, sev) = create_allocation_send k c g env adapter
                                                process_host_handle args alloc_info
                                                priv_drv_data_size
                             in (ret, ev2 @ gev @ sev))"

subsection \<open>Reading a trace\<close>

text \<open>The packets handed to the transport, and the sizes asked of the allocators.\<close>

fun sent_packets :: "event list \<Rightarrow> (channel \<times> packet) list" where
  "sent_packets [] = []"
| "sent_packets (Send_sync_msg ch p # es) = (ch, p) # sent_packets es"
| "sent_packets (Send_async_msg ch p # es) = (ch, p) # sent_packets es"
| "sent_packets (e # es) = sent_packets es"


subsection \<open>The channel rule in the words of the specification\<close>

text \<open>
  The adapter's own channel when an adapter context is present and asynchronous
  messages are not enabled, the global channel in every other case.
\<close>

definition select_channel :: "dxgadapter option \<Rightarrow> bool \<Rightarrow> channel" where
  "select_channel adapter async =
     (case adapter of
        Some a \<Rightarrow> if \<not> async then Adapter_channel (adapter_id a) else Global_channel
      | None \<Rightarrow> Global_channel)"

subsection \<open>Sample values\<close>

text \<open>
  A concrete instance of the parameters, for evaluating the encoders: a maximum packet
  size of 128 KiB, an inline buffer of 64 bytes, and sample structure sizes.
\<close>

definition sample_consts :: build_consts where
  "sample_consts = \<lparr> DXG_MAX_VM_BUS_PACKET_SIZE = 131072, VMBUSMESSAGEONSTACK = 64,
     DXGK_VMBUS_INTERFACE_VERSION = 40, D3DDDI_MAX_OBJECT_WAITED_ON = 32,
     sizeof = (\<lambda>s. case s of Dxgvmb_ext_header \<Rightarrow> 16
                      | Command_createallocation_allocinfo \<Rightarrow> 16
                      | Command_allocinfo_return \<Rightarrow> 16
                      | _ \<Rightarrow> 48) \<rparr>"

definition sample_global :: "bool \<Rightarrow> dxgglobal" where
  "sample_global async = \<lparr> vmbus_ver = 0, async_msg_enabled = async,
      mmiospace_base = 0x100000000, mmiospace_size = 0x10000 \<rparr>"

definition sample_adapter :: dxgadapter where
  "sample_adapter = \<lparr> adapter_id = 7, host_vgpu_luid = 0x55 \<rparr>"

definition sample_transport :: transport where
  "sample_transport = \<lparr> sync_ret = 0, sync_status = 0, async_ret = 0 \<rparr>"

subsection \<open>The invariant of the run-length encoder\<close>

text \<open>
  Before the iteration for the counter value \<open>k\<close>: the records written for this
  allocation and the run being counted cover the first \<open>k\<close> pages, the run is not
  longer than the cap, the base of the run is page aligned, and the count of records
  used is within the limit.  \<open>u0\<close> is the count of records used when the allocation
  was started.
\<close>

definition rle_inv :: "nat \<Rightarrow> nat \<Rightarrow> nat \<Rightarrow> rle_state \<Rightarrow> bool" where
  "rle_inv u0 limit k st \<longleftrightarrow>
     rle_total_pages (rle_records st) + pages_seen st = k \<and>
     (k = 0 \<longrightarrow> pages_seen st = 0) \<and> (0 < k \<longrightarrow> 1 \<le> pages_seen st) \<and>
     pages_seen st \<le> PAGE_SIZE \<and>
     base_page st AND mask PAGE_SHIFT = 0 \<and>
     sysmem_pages_rle_used st = u0 + length (rle_records st) \<and>
     sysmem_pages_rle_used st \<le> limit"

definition covers :: "sysmem_alloc \<Rightarrow> 64 word list \<Rightarrow> bool" where
  "covers a rs \<longleftrightarrow>
     rle_total_pages rs = (if sysmem_encoded a then sysmem_npages (sa_alloc_size a) else 0)"

text \<open>
  Two allocations for evaluating the encoder: three pinned pages of which the first two
  are physically adjacent, and an allocation without private driver data.
\<close>

definition sample_allocs :: "sysmem_alloc list" where
  "sample_allocs =
     [ \<lparr> sa_info = \<lparr> ai_priv_drv_data_size = 16, ai_sysmem = 0x7000 \<rparr>,
         sa_alloc_size = 0x3000, sa_pinned = Some [0x100, 0x101, 0x200] \<rparr>,
       \<lparr> sa_info = \<lparr> ai_priv_drv_data_size = 0, ai_sysmem = 0x9000 \<rparr>,
         sa_alloc_size = 0x1000, sa_pinned = None \<rparr> ]"

text \<open>Sample inputs for the signal encoder, the allocation encoder and the hardware
  queue encoder.\<close>

definition sample_signal_env :: signal_env where
  "sample_signal_env = \<lparr> ss_kzalloc_ok = True, ss_copy_objects_ok = True,
     ss_copy_contexts_ok = True, ss_copy_fences_ok = True, ss_transport = sample_transport \<rparr>"



definition small_signal :: signal_args where
  "small_signal = \<lparr> ss_context = 0, ss_object_count = 1, ss_objects = [0x40000001],
     ss_context_count = 0, ss_contexts = [], ss_fence_count = 0, ss_fences = None,
     ss_user_address = False \<rparr>"

definition sample_create_env :: createallocation_env where
  "sample_create_env = \<lparr> ca_vzalloc_result_ok = True, ca_vzalloc_sizes_ok = True,
     ca_get_size = \<lparr> gs_kzalloc_ok = True, gs_copy_ok = True, gs_send_ret = 0,
                     gs_alloc_count = 1, gs_status = 0, gs_sizes = [0x3000] \<rparr>,
     ca_kzalloc_ok = True, ca_copy_private_data_ret = 0,
     ca_pinned = [Some [0x100, 0x101, 0x200]], ca_send_ret = 0, ca_result_status = 0,
     ca_create_local_ret = 0 \<rparr>"

text \<open>
  A batch of two system-memory allocations for which the host reports the sizes
  \<open>0x1FFFFFFE000\<close> and \<open>0x3000\<close> bytes, that is \<open>2^29 - 2\<close> and \<open>3\<close> pages.  Only the second
  allocation has private driver data; its three pinned pages are not contiguous.
\<close>

definition wrapping_alloc_info :: "d3dddi_allocationinfo list" where
  "wrapping_alloc_info =
     [\<lparr> ai_priv_drv_data_size = 0, ai_sysmem = 0x7000000 \<rparr>,
      \<lparr> ai_priv_drv_data_size = 16, ai_sysmem = 0x8000000 \<rparr>]"

definition wrapping_create_env :: createallocation_env where
  "wrapping_create_env = \<lparr> ca_vzalloc_result_ok = True, ca_vzalloc_sizes_ok = True,
     ca_get_size = \<lparr> gs_kzalloc_ok = True, gs_copy_ok = True, gs_send_ret = 0,
                     gs_alloc_count = 2, gs_status = 0,
                     gs_sizes = [0x1FFFFFFE000, 0x3000] \<rparr>,
     ca_kzalloc_ok = True, ca_copy_private_data_ret = 0,
     ca_pinned = [None, Some [0x100, 0x200, 0x300]], ca_send_ret = 0, ca_result_status = 0,
     ca_create_local_ret = 0 \<rparr>"

definition wrapping_create_args :: createallocation_args where
  "wrapping_create_args = \<lparr> ca_private_runtime_data_size = 0, ca_priv_drv_data_size = 0 \<rparr>"

definition wrapping_create_run :: "int \<times> event list" where
  "wrapping_create_run = dxgvmb_send_create_allocation sample_consts nt_status_codes
     (sample_global False) wrapping_create_env (Some sample_adapter) 9
     wrapping_create_args wrapping_alloc_info"

text \<open>The allocations of that batch as the encoder of the page lists sees them.\<close>

definition wrapping_sysmem_allocs :: "sysmem_alloc list" where
  "wrapping_sysmem_allocs =
     [\<lparr> sa_info = \<lparr> ai_priv_drv_data_size = 0, ai_sysmem = 0x7000000 \<rparr>,
        sa_alloc_size = 0x1FFFFFFE000, sa_pinned = None \<rparr>,
      \<lparr> sa_info = \<lparr> ai_priv_drv_data_size = 16, ai_sysmem = 0x8000000 \<rparr>,
        sa_alloc_size = 0x3000, sa_pinned = Some [0x100, 0x200, 0x300] \<rparr>]"

text \<open>
  The events of a trace that register or release a guest-side resource: handle-table
  entries and memory mappings.
\<close>

fun resource_events :: "event list \<Rightarrow> event list" where
  "resource_events [] = []"
| "resource_events (Hmgr_assign t h # es) = Hmgr_assign t h # resource_events es"
| "resource_events (Hmgr_free t h # es) = Hmgr_free t h # resource_events es"
| "resource_events (Vm_mmap n # es) = Vm_mmap n # resource_events es"
| "resource_events (Io_remap_pfn_range a n # es) = Io_remap_pfn_range a n # resource_events es"
| "resource_events (Vm_munmap a n # es) = Vm_munmap a n # resource_events es"
| "resource_events (e # es) = resource_events es"

text \<open>
  A run of \<^verbatim>\<open>dxgvmb_send_create_hwqueue\<close> in which the host creates the queue, both
  handles are registered, the progress fence is mapped, and the second copy to user
  memory fails.
\<close>

definition sample_hwqueue_env :: createhwqueue_env where
  "sample_hwqueue_env = \<lparr> hq_kzalloc_ok = True, hq_copy_from_user_ok = True, hq_send_ret = 0,
     hq_reply = \<lparr> rp_status = 0, rp_hwqueue = 0x40000011,
                  rp_hwqueue_progress_fence = 0x40000022,
                  rp_hwqueue_progress_fence_cpuva = 0x100001000 \<rparr>,
     hq_assign_queue_ret = 0, hq_assign_fence_ret = 0,
     hq_mm = \<lparr> current_mm = True, vm_mmap_ret = 0x7f0000000000, find_vma_ok = True,
               io_remap_ret = 0, vm_munmap_ret = 0 \<rparr>,
     hq_copy_queue_ok = True, hq_copy_fence_ok = False, hq_copy_cpu_va_ok = True,
     hq_copy_gpu_va_ok = True, hq_copy_priv_ok = True,
     hq_destroy_kzalloc_ok = True, hq_destroy_transport = sample_transport \<rparr>"

definition sample_hwqueue :: dxghwqueue where
  "sample_hwqueue = \<lparr> hwq_handle = 0, progress_fence_sync_object = 0,
     progress_fence_mapped_address = None \<rparr>"

definition sample_hwqueue_run :: "int \<times> event list \<times> dxghwqueue" where
  "sample_hwqueue_run = dxgvmb_send_create_hwqueue sample_consts nt_status_codes
     (sample_global False) sample_hwqueue_env (Some sample_adapter) 9
     \<lparr> hq_priv_drv_data_size = 0, hq_context = 5 \<rparr> sample_hwqueue"

section \<open>Properties\<close>

lemmas errno_defs = EPERM_def ENOENT_def EBADF_def EAGAIN_def ENOMEM_def EACCES_def
  EEXIST_def ENODEV_def EINVAL_def EOVERFLOW_def EPROTOTYPE_def EOPNOTSUPP_def
  EINPROGRESS_def ENOTRECOVERABLE_def

subsection \<open>Reading traces and building messages\<close>

lemma sent_packets_append: "sent_packets (xs @ ys) = sent_packets xs @ sent_packets ys"
  by (induction xs rule: sent_packets.induct) simp_all

lemma init_message_no_send: "init_message k g ok adapter sz = (ev, r) \<Longrightarrow> sent_packets ev = []"
  by (auto simp: init_message_def Let_def split: if_splits)

lemma init_message_no_lock:
  "init_message k g ok adapter sz = (ev, r) \<Longrightarrow> Acquire_channel_lock \<notin> set ev"
  by (auto simp: init_message_def Let_def split: if_splits)

lemma init_message_channel:
  "init_message k g ok adapter sz = (ev, Inr msg) \<Longrightarrow>
     msg_channel msg = select_channel adapter (async_msg_enabled g)"
  by (auto simp: init_message_def Let_def select_channel_def split: if_splits option.splits)

lemma init_message_ok:
  "ok \<Longrightarrow> \<exists>ev msg. init_message k g ok adapter sz = (ev, Inr msg)"
  by (simp add: init_message_def Let_def)

subsection \<open>Status translator\<close>

lemma ntstatus2int_map_of:
  "ntstatus2int c s =
     (if NT_SUCCESS s then sint s
      else case map_of (zip (case_labels c) documented_errno) s of
             None \<Rightarrow> - EINVAL | Some e \<Rightarrow> e)"
  by (simp add: ntstatus2int_def case_labels_def documented_errno_def)

lemma ntstatus2int_label:
  assumes "distinct (case_labels c)" and "i < 15" and "\<not> NT_SUCCESS (case_labels c ! i)"
  shows "ntstatus2int c (case_labels c ! i) = documented_errno ! i"
proof -
  have len: "length (case_labels c) = length documented_errno"
    by (simp add: case_labels_def documented_errno_def)
  have "i < length documented_errno"
    using assms(2) by (simp add: documented_errno_def)
  with len assms(1)
  have "map_of (zip (case_labels c) documented_errno) (case_labels c ! i)
          = Some (documented_errno ! i)"
    by (rule map_of_zip_nth)
  with assms(3) show ?thesis by (simp add: ntstatus2int_map_of)
qed

lemma ntstatus2int_default:
  assumes "\<not> NT_SUCCESS s" and "s \<notin> set (case_labels c)"
  shows "ntstatus2int c s = - EINVAL"
proof -
  have "length (case_labels c) = length documented_errno"
    by (simp add: case_labels_def documented_errno_def)
  with assms(2) have "map_of (zip (case_labels c) documented_errno) s = None"
    by simp
  with assms(1) show ?thesis by (simp add: ntstatus2int_map_of)
qed

text \<open>
  The table of \<^verbatim>\<open>ntstatus2int\<close>, for any values of the constants.  A successful status
  returns its raw value, also when that value is positive.  A status that is not a
  success and equals one of the case labels returns the code written at that label, and
  every other status that is not a success returns \<open>-EINVAL\<close>.  A label whose constant
  is a success status is never reached.
\<close>

lemma ntstatus2int_table:
  "(NT_SUCCESS s \<longrightarrow> ntstatus2int c s = sint s) \<and>
   (\<not> NT_SUCCESS s \<and> distinct (case_labels c) \<longrightarrow>
      (s = STATUS_OBJECT_NAME_COLLISION c \<longrightarrow> ntstatus2int c s = - EEXIST) \<and>
      (s = STATUS_NO_MEMORY c \<longrightarrow> ntstatus2int c s = - ENOMEM) \<and>
      (s = STATUS_INVALID_PARAMETER c \<longrightarrow> ntstatus2int c s = - EINVAL) \<and>
      (s = STATUS_OBJECT_NAME_INVALID c \<longrightarrow> ntstatus2int c s = - ENOENT) \<and>
      (s = STATUS_OBJECT_NAME_NOT_FOUND c \<longrightarrow> ntstatus2int c s = - ENOENT) \<and>
      (s = STATUS_TIMEOUT c \<longrightarrow> ntstatus2int c s = - EAGAIN) \<and>
      (s = STATUS_BUFFER_TOO_SMALL c \<longrightarrow> ntstatus2int c s = - EOVERFLOW) \<and>
      (s = STATUS_DEVICE_REMOVED c \<longrightarrow> ntstatus2int c s = - ENODEV) \<and>
      (s = STATUS_ACCESS_DENIED c \<longrightarrow> ntstatus2int c s = - EACCES) \<and>
      (s = STATUS_NOT_SUPPORTED c \<longrightarrow> ntstatus2int c s = - EPERM) \<and>
      (s = STATUS_ILLEGAL_INSTRUCTION c \<longrightarrow> ntstatus2int c s = - EOPNOTSUPP) \<and>
      (s = STATUS_INVALID_HANDLE c \<longrightarrow> ntstatus2int c s = - EBADF) \<and>
      (s = STATUS_GRAPHICS_ALLOCATION_BUSY c \<longrightarrow> ntstatus2int c s = - EINPROGRESS) \<and>
      (s = STATUS_OBJECT_TYPE_MISMATCH c \<longrightarrow> ntstatus2int c s = - EPROTOTYPE) \<and>
      (s = STATUS_NOT_IMPLEMENTED c \<longrightarrow> ntstatus2int c s = - EPERM)) \<and>
   (\<not> NT_SUCCESS s \<and> s \<notin> set (case_labels c) \<longrightarrow> ntstatus2int c s = - EINVAL)"
proof (intro conjI impI)
  show "ntstatus2int c s = sint s" if "NT_SUCCESS s"
    using that by (simp add: ntstatus2int_def)
  show "ntstatus2int c s = - EINVAL" if "\<not> NT_SUCCESS s \<and> s \<notin> set (case_labels c)"
    using that by (simp add: ntstatus2int_default)
next
  assume a: "\<not> NT_SUCCESS s \<and> distinct (case_labels c)"
  have L: "\<And>i. i < 15 \<Longrightarrow> s = case_labels c ! i \<Longrightarrow> ntstatus2int c s = documented_errno ! i"
    using a ntstatus2int_label by blast
  have nth:
    "case_labels c ! 0 = STATUS_OBJECT_NAME_COLLISION c" "documented_errno ! 0 = - EEXIST"
    "case_labels c ! 1 = STATUS_NO_MEMORY c" "documented_errno ! 1 = - ENOMEM"
    "case_labels c ! 2 = STATUS_INVALID_PARAMETER c" "documented_errno ! 2 = - EINVAL"
    "case_labels c ! 3 = STATUS_OBJECT_NAME_INVALID c" "documented_errno ! 3 = - ENOENT"
    "case_labels c ! 4 = STATUS_OBJECT_NAME_NOT_FOUND c" "documented_errno ! 4 = - ENOENT"
    "case_labels c ! 5 = STATUS_TIMEOUT c" "documented_errno ! 5 = - EAGAIN"
    "case_labels c ! 6 = STATUS_BUFFER_TOO_SMALL c" "documented_errno ! 6 = - EOVERFLOW"
    "case_labels c ! 7 = STATUS_DEVICE_REMOVED c" "documented_errno ! 7 = - ENODEV"
    "case_labels c ! 8 = STATUS_ACCESS_DENIED c" "documented_errno ! 8 = - EACCES"
    "case_labels c ! 9 = STATUS_NOT_SUPPORTED c" "documented_errno ! 9 = - EPERM"
    "case_labels c ! 10 = STATUS_ILLEGAL_INSTRUCTION c" "documented_errno ! 10 = - EOPNOTSUPP"
    "case_labels c ! 11 = STATUS_INVALID_HANDLE c" "documented_errno ! 11 = - EBADF"
    "case_labels c ! 12 = STATUS_GRAPHICS_ALLOCATION_BUSY c"
    "documented_errno ! 12 = - EINPROGRESS"
    "case_labels c ! 13 = STATUS_OBJECT_TYPE_MISMATCH c" "documented_errno ! 13 = - EPROTOTYPE"
    "case_labels c ! 14 = STATUS_NOT_IMPLEMENTED c" "documented_errno ! 14 = - EPERM"
    by (simp_all add: case_labels_def documented_errno_def)
  show "ntstatus2int c s = - EEXIST" if "s = STATUS_OBJECT_NAME_COLLISION c"
    using L [of 0] that nth by simp
  show "ntstatus2int c s = - ENOMEM" if "s = STATUS_NO_MEMORY c"
    using L [of 1] that nth by simp
  show "ntstatus2int c s = - EINVAL" if "s = STATUS_INVALID_PARAMETER c"
    using L [of 2] that nth by simp
  show "ntstatus2int c s = - ENOENT" if "s = STATUS_OBJECT_NAME_INVALID c"
    using L [of 3] that nth by simp
  show "ntstatus2int c s = - ENOENT" if "s = STATUS_OBJECT_NAME_NOT_FOUND c"
    using L [of 4] that nth by simp
  show "ntstatus2int c s = - EAGAIN" if "s = STATUS_TIMEOUT c"
    using L [of 5] that nth by simp
  show "ntstatus2int c s = - EOVERFLOW" if "s = STATUS_BUFFER_TOO_SMALL c"
    using L [of 6] that nth by simp
  show "ntstatus2int c s = - ENODEV" if "s = STATUS_DEVICE_REMOVED c"
    using L [of 7] that nth by simp
  show "ntstatus2int c s = - EACCES" if "s = STATUS_ACCESS_DENIED c"
    using L [of 8] that nth by simp
  show "ntstatus2int c s = - EPERM" if "s = STATUS_NOT_SUPPORTED c"
    using L [of 9] that nth by simp
  show "ntstatus2int c s = - EOPNOTSUPP" if "s = STATUS_ILLEGAL_INSTRUCTION c"
    using L [of 10] that nth by simp
  show "ntstatus2int c s = - EBADF" if "s = STATUS_INVALID_HANDLE c"
    using L [of 11] that nth by simp
  show "ntstatus2int c s = - EINPROGRESS" if "s = STATUS_GRAPHICS_ALLOCATION_BUSY c"
    using L [of 12] that nth by simp
  show "ntstatus2int c s = - EPROTOTYPE" if "s = STATUS_OBJECT_TYPE_MISMATCH c"
    using L [of 13] that nth by simp
  show "ntstatus2int c s = - EPERM" if "s = STATUS_NOT_IMPLEMENTED c"
    using L [of 14] that nth by simp
qed

lemma nt_status_codes_distinct: "distinct (case_labels nt_status_codes)"
  by (simp add: case_labels_def nt_status_codes_def)

lemma ntstatus2int_table_sample:
  "NT_SUCCESS 0x103 \<and> ntstatus2int nt_status_codes 0x103 = 259 \<and>
   \<not> NT_SUCCESS 0xC0000035 \<and> distinct (case_labels nt_status_codes) \<and>
   0xC0000035 = STATUS_OBJECT_NAME_COLLISION nt_status_codes \<and>
   ntstatus2int nt_status_codes 0xC0000035 = - 17 \<and>
   \<not> NT_SUCCESS 0xC0000001 \<and> 0xC0000001 \<notin> set (case_labels nt_status_codes) \<and>
   ntstatus2int nt_status_codes 0xC0000001 = - 22"
  using ntstatus2int_table [of "0x103" nt_status_codes]
    ntstatus2int_table [of "0xC0000035" nt_status_codes]
    ntstatus2int_table [of "0xC0000001" nt_status_codes]
    nt_status_codes_distinct
  by (simp add: NT_SUCCESS_def nt_status_codes_def case_labels_def errno_defs)

text \<open>
  With the Windows values every listed status but the timeout is negative, so the
  table above gives each of them its documented code.
\<close>

lemma nt_failure_labels:
  "\<forall>s \<in> set (case_labels nt_status_codes).
     s \<noteq> STATUS_TIMEOUT nt_status_codes \<longrightarrow> \<not> NT_SUCCESS s"
  by (simp add: case_labels_def nt_status_codes_def NT_SUCCESS_def)

text \<open>
  Claim C3.  \<^verbatim>\<open>ntstatus2int\<close> is to map each listed failure status to its documented
  code, the timeout status to \<open>-EAGAIN\<close>.  The code tests \<^verbatim>\<open>NT_SUCCESS\<close> before the
  \<^verbatim>\<open>switch\<close>.  The timeout status \<open>0x102\<close> is not negative: it is returned unchanged
  as 258, and the label \<^verbatim>\<open>case STATUS_TIMEOUT\<close> with its \<open>-EAGAIN\<close> is never reached.
\<close>

theorem ntstatus2int_timeout_passes_through:
  "case_labels nt_status_codes ! 5 = STATUS_TIMEOUT nt_status_codes \<and>
   documented_errno ! 5 = - EAGAIN \<and>
   NT_SUCCESS (STATUS_TIMEOUT nt_status_codes) \<and>
   ntstatus2int nt_status_codes (STATUS_TIMEOUT nt_status_codes) = 258 \<and>
   ntstatus2int nt_status_codes (STATUS_TIMEOUT nt_status_codes) \<noteq> - EAGAIN"
  by (simp add: ntstatus2int_def NT_SUCCESS_def nt_status_codes_def case_labels_def
       documented_errno_def errno_defs)

subsection \<open>Channel selection\<close>




subsection \<open>Memory window mapper\<close>

text \<open>
  Without wrap-around, \<^verbatim>\<open>check_iospace_address\<close> accepts exactly the ranges that
  start in the window and end strictly before its end.
\<close>

lemma check_iospace_address_accepts:
  assumes "unat (mmiospace_base g) + unat (mmiospace_size g) < 2 ^ 64" and "sz < 2 ^ 32"
  shows "check_iospace_address g address sz = 0 \<longleftrightarrow>
     mmiospace_base g \<le> address \<and> sz \<le> unat (mmiospace_size g) \<and>
     unat address + sz < unat (mmiospace_base g) + unat (mmiospace_size g)"
proof -
  have s: "unat (of_nat sz :: 64 word) = sz"
    using assms(2) by (simp add: unat_of_nat)
  have a: "unat (mmiospace_base g + mmiospace_size g)
             = unat (mmiospace_base g) + unat (mmiospace_size g)"
    using assms(1) by (simp add: unat_word_ariths)
  show ?thesis
  proof (cases "sz \<le> unat (mmiospace_size g)")
    case False
    then have "(of_nat sz :: 64 word) > mmiospace_size g"
      by (simp add: word_less_nat_alt s)
    then show ?thesis using False by (simp add: check_iospace_address_def errno_defs)
  next
    case True
    then have le: "(of_nat sz :: 64 word) \<le> mmiospace_size g"
      by (simp add: word_le_nat_alt s)
    have "(of_nat sz :: 64 word) \<le> mmiospace_base g + mmiospace_size g"
      using True a s by (simp add: word_le_nat_alt)
    then have d: "unat (mmiospace_base g + mmiospace_size g - of_nat sz)
        = unat (mmiospace_base g) + unat (mmiospace_size g) - sz"
      using a s by (simp add: unat_sub)
    show ?thesis
      using True le d
      by (auto simp: check_iospace_address_def errno_defs word_le_nat_alt word_less_nat_alt
            not_le not_less)
  qed
qed

text \<open>
  Claim C8.  \<^verbatim>\<open>dxg_map_iospace\<close> is to accept an address and size exactly when
  base \<open>\<le>\<close> address and address + size \<open>\<le>\<close> base + window size.  The code refuses the
  range that ends exactly at the end of the window: with the window at
  \<open>0x100000000\<close> of size \<open>0x10000\<close>, the last page (\<open>0x10000F000\<close>, size \<open>0x1000\<close>)
  lies within the window, and \<^verbatim>\<open>check_iospace_address\<close> returns \<open>-EINVAL\<close> for it, so
  that \<^verbatim>\<open>dxg_map_iospace\<close> returns \<^verbatim>\<open>NULL\<close> without mapping anything.
\<close>

theorem dxg_map_iospace_rejects_window_end:
  "mmiospace_base (sample_global False) \<le> 0x10000F000 \<and>
   unat (0x10000F000 :: 64 word) + 0x1000
     \<le> unat (mmiospace_base (sample_global False))
         + unat (mmiospace_size (sample_global False)) \<and>
   check_iospace_address (sample_global False) 0x10000F000 0x1000 = - EINVAL \<and>
   dxg_map_iospace (sample_global False) env 0x10000F000 0x1000 cached = ([], None)"
  by (simp add: dxg_map_iospace_def check_iospace_address_def sample_global_def errno_defs)

subsection \<open>Bulk signal and wait\<close>



text \<open>
  Claim C7.  A \<^verbatim>\<open>dxgvmb_send_signal_sync_object\<close> call with two objects, no context
  array, two fence values behind a non-null pointer and a non-zero explicit context
  handle sends one packet whose variable payload is the two object handles, then the
  injected context handle, then the two fence values:
  \<open>2 * sizeof(d3dkmthandle) + 1 * sizeof(d3dkmthandle) + 2 * 8\<close> bytes after the fixed
  command structure.  The header reports a context count of 1.
\<close>

theorem signal_sync_object_scenario:
  assumes a: "a = \<lparr> ss_context = ctx, ss_object_count = 2, ss_objects = [o1, o2],
                     ss_context_count = 0, ss_contexts = [], ss_fence_count = 2,
                     ss_fences = Some [f1, f2], ss_user_address = ua \<rparr>"
    and ctx: "ctx \<noteq> 0"
    and ok: "ss_kzalloc_ok env" "ua \<longrightarrow> ss_copy_objects_ok env \<and> ss_copy_fences_ok env"
  shows "\<exists>ch p. sent_packets (snd (dxgvmb_send_signal_sync_object k c g env adapter ph a))
                  = [(ch, p)] \<and>
           pkt_payload p = [Handles [o1, o2], Handles [ctx], Values64 [f1, f2]] \<and>
           payload_bytes (pkt_payload p)
             = 2 * sizeof_d3dkmthandle + 1 * sizeof_d3dkmthandle + 2 * 8 \<and>
           pkt_object_count p = 2 \<and> pkt_context_count p = 1 \<and>
           signal_cmd_size k a
             = u32 (sizeof k Command_signalsyncobject
                      + (2 * sizeof_d3dkmthandle + 1 * sizeof_d3dkmthandle + 2 * 8))"
proof -
  have sz: "signal_cmd_size k a = u32 (sizeof k Command_signalsyncobject + 28)"
    using ctx unfolding a signal_cmd_size_def Let_def sizeof_d3dkmthandle_def sizeof_u64_def
    by (simp add: u32_def mod_simps add.commute)
  obtain ev msg where im: "init_message k g (ss_kzalloc_ok env) adapter (signal_cmd_size k a)
      = (ev, Inr msg)"
    using init_message_ok [OF ok(1)] by blast
  have ns: "sent_packets ev = []" by (rule init_message_no_send [OF im])
  show ?thesis
    using im ns ctx ok(2) sz unfolding a
    by (auto simp: dxgvmb_send_signal_sync_object_def Let_def sent_packets_append
          dxgvmb_send_sync_msg_ntstatus_def payload_bytes_def sizeof_d3dkmthandle_def
          sizeof_u64_def u32_def
        split: prod.splits)
qed

theorem signal_sync_object_scenario_witness:
  "(0x40000005 :: 32 word) \<noteq> 0 \<and>
   (\<exists>ch p. sent_packets (snd (dxgvmb_send_signal_sync_object sample_consts nt_status_codes
        (sample_global False)
        \<lparr> ss_kzalloc_ok = True, ss_copy_objects_ok = True, ss_copy_contexts_ok = True,
          ss_copy_fences_ok = True, ss_transport = sample_transport \<rparr>
        (Some sample_adapter) 9
        \<lparr> ss_context = 0x40000005, ss_object_count = 2, ss_objects = [0x40000001, 0x40000002],
          ss_context_count = 0, ss_contexts = [], ss_fence_count = 2,
          ss_fences = Some [100, 200], ss_user_address = True \<rparr>)) = [(ch, p)] \<and>
      pkt_payload p = [Handles [0x40000001, 0x40000002], Handles [0x40000005],
                       Values64 [100, 200]] \<and>
      payload_bytes (pkt_payload p) = 28 \<and> pkt_context_count p = 1)"
  using signal_sync_object_scenario [where ctx = "0x40000005" and ?o1.0 = "0x40000001"
      and ?o2.0 = "0x40000002" and ?f1.0 = 100 and ?f2.0 = 200 and ua = True
      and env = "\<lparr> ss_kzalloc_ok = True, ss_copy_objects_ok = True,
          ss_copy_contexts_ok = True, ss_copy_fences_ok = True,
          ss_transport = sample_transport \<rparr>"
      and k = sample_consts and c = nt_status_codes and g = "sample_global False"
      and adapter = "Some sample_adapter" and ph = 9, OF refl]
  by (auto simp: sizeof_d3dkmthandle_def)

subsection \<open>Run-length encoding of system-memory pages\<close>

lemma page_to_phys_aligned: "page_to_phys p AND mask PAGE_SHIFT = 0"
  by (rule bit_eqI) (auto simp: page_to_phys_def bit_simps)

lemma count_field:
  assumes "(b :: 64 word) AND mask PAGE_SHIFT = 0" and "n < PAGE_SIZE"
  shows "rle_record_pages (b OR of_nat n) = n + 1"
proof -
  have lt: "(of_nat n :: 64 word) < 2 ^ PAGE_SHIFT"
    using assms(2) by (simp add: PAGE_SIZE_def PAGE_SHIFT_def word_less_nat_alt unat_of_nat)
  have "(b OR of_nat n) AND mask PAGE_SHIFT = (b AND mask PAGE_SHIFT) OR (of_nat n AND mask PAGE_SHIFT)"
    by (simp add: bit.conj_disj_distrib2)
  also have "\<dots> = of_nat n"
    using assms(1) lt by (simp add: less_mask_eq)
  finally have "(b OR of_nat n) AND mask PAGE_SHIFT = of_nat n" .
  moreover have "unat (of_nat n :: 64 word) = n"
    using assms(2) by (simp add: PAGE_SIZE_def unat_of_nat)
  ultimately show ?thesis by (simp add: rle_record_pages_def)
qed

lemma u32_pred: "1 \<le> n \<Longrightarrow> n \<le> PAGE_SIZE \<Longrightarrow> u32 (n + 2 ^ 32 - 1) = n - 1"
proof -
  assume a: "1 \<le> n" "n \<le> PAGE_SIZE"
  then have "u32 (n + 2 ^ 32 - 1) = ((n - 1) + 2 ^ 32) mod 2 ^ 32"
    by (simp add: u32_def)
  also have "\<dots> = (n - 1) mod 2 ^ 32" by (rule mod_add_self2)
  also have "\<dots> = n - 1" using a by (simp add: PAGE_SIZE_def)
  finally show ?thesis .
qed

lemma rle_total_pages_snoc:
  "rle_total_pages (rs @ [r]) = rle_total_pages rs + rle_record_pages r"
  by (simp add: rle_total_pages_def)

lemma base_aligned:
  "base_page st AND mask PAGE_SHIFT = 0 \<Longrightarrow>
   (if base_page st = 0 then page_to_phys p else base_page st) AND mask PAGE_SHIFT = 0"
  by (simp add: page_to_phys_aligned)

lemma rle_iteration_ret:
  "rle_iteration limit pages npages k st = (ret, st') \<Longrightarrow> ret = 0 \<or> ret = - EOVERFLOW"
  by (auto simp: rle_iteration_def Let_def split: if_splits)

lemma rle_iteration_overflow:
  assumes "rle_inv u0 limit k st" and "rle_iteration limit pages npages k st = (ret, st')"
    and "ret \<noteq> 0"
  shows "rle_records st' = rle_records st \<and> sysmem_pages_rle_used st' = limit
         \<and> sysmem_pages_rle_used st' = u0 + length (rle_records st')"
  using assms by (auto simp: rle_iteration_def rle_inv_def Let_def split: if_splits)

lemma rle_iteration_step:
  assumes inv: "rle_inv u0 limit k st" and np: "1 \<le> npages" and k: "k \<le> npages"
    and it: "rle_iteration limit pages npages k st = (0, st')"
  shows "rle_inv u0 limit (k + 1) st'"
    and "k = npages \<Longrightarrow> rle_total_pages (rle_records st') = npages"
proof -
  define curr where "curr = page_to_phys (pages ! page_in st)"
  define base where "base = (if base_page st = 0 then curr else base_page st)"
  define nxt where "nxt = (if k < u32 (npages + 2 ^ 32 - 1) then page_in st + 1 else page_in st)"
  define r where "r = base OR of_nat (u32 (pages_seen st + 2 ^ 32 - 1))"
  define flush where "flush \<longleftrightarrow>
     (k \<noteq> 0 \<and> curr \<noteq> base + of_nat (pages_seen st) * of_nat PAGE_SIZE)
       \<or> pages_seen st = PAGE_SIZE \<or> k = npages"
  have itdef: "rle_iteration limit pages npages k st =
     (if flush then
        if sysmem_pages_rle_used st \<ge> limit then (- EOVERFLOW, st \<lparr> base_page := base \<rparr>)
        else (0, st \<lparr> base_page := curr, pages_seen := 1, page_in := nxt,
                      sysmem_pages_rle_used := sysmem_pages_rle_used st + 1,
                      rle_records := rle_records st @ [r] \<rparr>)
      else (0, st \<lparr> base_page := base, pages_seen := pages_seen st + 1, page_in := nxt \<rparr>))"
    unfolding rle_iteration_def Let_def flush_def r_def nxt_def base_def curr_def
    by (rule refl)
  have al: "base AND mask PAGE_SHIFT = 0"
    using inv by (simp add: rle_inv_def base_def curr_def page_to_phys_aligned)
  have both: "rle_inv u0 limit (k + 1) st' \<and> (k = npages \<longrightarrow> rle_total_pages (rle_records st') = npages)"
  proof (cases flush)
    case True
    have kpos: "0 < k"
    proof (rule ccontr)
      assume "\<not> 0 < k"
      then have "k = 0" by simp
      with inv have "pages_seen st = 0" by (simp add: rle_inv_def)
      with True \<open>k = 0\<close> np show False by (simp add: flush_def PAGE_SIZE_def)
    qed
    then have seen: "1 \<le> pages_seen st" "pages_seen st \<le> PAGE_SIZE"
      using inv by (auto simp: rle_inv_def)
    from True it have used: "sysmem_pages_rle_used st < limit"
      unfolding itdef by (auto simp: errno_defs split: if_splits)
    have e: "u32 (pages_seen st + 2 ^ 32 - 1) = pages_seen st - 1"
      by (rule u32_pred [OF seen])
    have "pages_seen st - 1 < PAGE_SIZE" using seen by simp
    then have "rle_record_pages (base OR of_nat (pages_seen st - 1)) = pages_seen st - 1 + 1"
      by (rule count_field [OF al])
    moreover have "pages_seen st - 1 + 1 = pages_seen st" using seen by simp
    ultimately have rec: "rle_record_pages r = pages_seen st"
      unfolding r_def by (simp only: e)
    from True it used have st': "st' = st \<lparr> base_page := curr, pages_seen := 1,
        page_in := nxt, sysmem_pages_rle_used := sysmem_pages_rle_used st + 1,
        rle_records := rle_records st @ [r] \<rparr>"
      unfolding itdef by simp
    have "curr AND mask PAGE_SHIFT = 0"
      by (simp add: curr_def page_to_phys_aligned)
    then show ?thesis
      using inv used rec unfolding st' rle_inv_def
      by (simp add: rle_total_pages_snoc PAGE_SIZE_def)
  next
    case False
    with it have st': "st' = st \<lparr> base_page := base, pages_seen := pages_seen st + 1,
        page_in := nxt \<rparr>"
      unfolding itdef by simp
    from False have "pages_seen st \<noteq> PAGE_SIZE" "k \<noteq> npages"
      by (auto simp: flush_def)
    then show ?thesis
      using inv al unfolding st' rle_inv_def by auto
  qed
  from both show "rle_inv u0 limit (k + 1) st'" by simp
  from both show "k = npages \<Longrightarrow> rle_total_pages (rle_records st') = npages" by simp
qed

lemma rle_loop_correct:
  "rle_loop limit pages npages k st = (ret, st') \<Longrightarrow> rle_inv u0 limit k st \<Longrightarrow>
   1 \<le> npages \<Longrightarrow> k \<le> npages \<Longrightarrow>
     (ret = 0 \<or> ret = - EOVERFLOW) \<and>
     (ret = 0 \<longrightarrow> rle_total_pages (rle_records st') = npages) \<and>
     (ret \<noteq> 0 \<longrightarrow> sysmem_pages_rle_used st' = limit) \<and>
     sysmem_pages_rle_used st' = u0 + length (rle_records st') \<and>
     sysmem_pages_rle_used st' \<le> limit"
proof (induction limit pages npages k st rule: rle_loop.induct)
  case (1 limit pages npages k st)
  obtain r1 st1 where it: "rle_iteration limit pages npages k st = (r1, st1)"
    by (cases "rle_iteration limit pages npages k st")
  show ?case
  proof (cases "r1 = 0")
    case False
    with it "1.prems" have "ret = r1" "st' = st1"
      by (simp_all add: rle_loop.simps [of limit pages npages k st])
    then show ?thesis
      using rle_iteration_ret [OF it] rle_iteration_overflow [OF "1.prems"(2) it False] False
      by auto
  next
    case True
    note step = rle_iteration_step [OF "1.prems"(2) "1.prems"(3) "1.prems"(4) it [unfolded True]]
    show ?thesis
    proof (cases "k = npages")
      case True
      from it \<open>r1 = 0\<close> "1.prems"(1) True have "ret = 0" "st' = st1"
        by (simp_all add: rle_loop.simps [of limit pages npages k st]
              rle_loop.simps [of limit pages npages "Suc npages" st1])
      then show ?thesis
        using step(1) step(2) [OF True] by (simp add: rle_inv_def)
    next
      case False
      with "1.prems"(4) have lt: "k + 1 \<le> npages" by simp
      from it \<open>r1 = 0\<close> "1.prems"(1) "1.prems"(4)
      have rec: "rle_loop limit pages npages (k + 1) st1 = (ret, st')"
        by (simp add: rle_loop.simps [of limit pages npages k st])
      show ?thesis
        by (rule "1.IH" [OF "1.prems"(4) it [symmetric] _ rec step(1) "1.prems"(3) lt])
          (simp add: True)
    qed
  qed
qed

lemma rle_inv_init:
  "used \<le> limit \<Longrightarrow>
   rle_inv used limit 0 \<lparr> base_page = 0, pages_seen = 0, page_in = 0,
     sysmem_pages_rle_used = used, rle_records = [] \<rparr>"
  by (simp add: rle_inv_def rle_total_pages_def)

lemma copy_sysmem_allocs_correct:
  "copy_sysmem_allocs limit used allocs = (ret, recs) \<Longrightarrow> used \<le> limit \<Longrightarrow>
     (ret = 0 \<or> ret = - ENOMEM \<or> ret = - EOVERFLOW) \<and>
     used + length (concat recs) \<le> limit \<and>
     (ret = - EOVERFLOW \<longrightarrow> used + length (concat recs) = limit) \<and>
     (ret = 0 \<longrightarrow> list_all2 covers allocs recs)"
proof (induction allocs arbitrary: used ret recs)
  case Nil
  then show ?case by (auto simp: errno_defs)
next
  case (Cons a rest)
  show ?case
  proof (cases "sysmem_encoded a")
    case False
    obtain r1 recs1 where rest: "copy_sysmem_allocs limit used rest = (r1, recs1)"
      by (cases "copy_sysmem_allocs limit used rest")
    with False Cons.prems(1) have eq: "ret = r1" "recs = [] # recs1"
      by (auto simp: sysmem_encoded_def)
    from Cons.IH [OF rest Cons.prems(2)] show ?thesis
      using False unfolding eq by (simp add: covers_def rle_total_pages_def)
  next
    case True
    let ?np = "sysmem_npages (sa_alloc_size a)"
    show ?thesis
    proof (cases "sa_pinned a")
      case None
      with True Cons.prems show ?thesis
        by (auto simp: sysmem_encoded_def Let_def errno_defs)
    next
      case (Some pages)
      show ?thesis
      proof (cases "?np = 0 \<or> length pages \<noteq> ?np \<or> \<not> length pages < 2 ^ 31")
        case True
        with \<open>sysmem_encoded a\<close> Some Cons.prems show ?thesis
          by (auto simp: sysmem_encoded_def Let_def errno_defs)
      next
        case False
        then have np: "1 \<le> ?np" by simp
        obtain r1 st where loop: "rle_loop limit pages ?np 0
             \<lparr> base_page = 0, pages_seen = 0, page_in = 0,
               sysmem_pages_rle_used = used, rle_records = [] \<rparr> = (r1, st)"
          by (cases "rle_loop limit pages ?np 0
             \<lparr> base_page = 0, pages_seen = 0, page_in = 0,
               sysmem_pages_rle_used = used, rle_records = [] \<rparr>")
        note L = rle_loop_correct [OF loop rle_inv_init [OF Cons.prems(2)] np]
        have L': "(r1 = 0 \<or> r1 = - EOVERFLOW)"
          "r1 = 0 \<longrightarrow> rle_total_pages (rle_records st) = ?np"
          "r1 \<noteq> 0 \<longrightarrow> sysmem_pages_rle_used st = limit"
          "sysmem_pages_rle_used st = used + length (rle_records st)"
          "sysmem_pages_rle_used st \<le> limit"
          using L by blast+
        show ?thesis
        proof (cases "r1 = 0")
          case False
          with \<open>sysmem_encoded a\<close> Some \<open>\<not> (?np = 0 \<or> length pages \<noteq> ?np \<or> \<not> length pages < 2 ^ 31)\<close>
            loop Cons.prems(1)
          have eq: "ret = r1" "recs = [rle_records st]"
            by (auto simp: sysmem_encoded_def Let_def)
          show ?thesis using L' False unfolding eq by (auto simp: errno_defs)
        next
          case True
          obtain r2 recs2 where rest:
            "copy_sysmem_allocs limit (sysmem_pages_rle_used st) rest = (r2, recs2)"
            by (cases "copy_sysmem_allocs limit (sysmem_pages_rle_used st) rest")
          with True \<open>sysmem_encoded a\<close> Some \<open>\<not> (?np = 0 \<or> length pages \<noteq> ?np \<or> \<not> length pages < 2 ^ 31)\<close>
            loop Cons.prems(1)
          have eq: "ret = r2" "recs = rle_records st # recs2"
            by (auto simp: sysmem_encoded_def Let_def)
          from Cons.IH [OF rest L'(5)] show ?thesis
            using L' True \<open>sysmem_encoded a\<close> unfolding eq by (auto simp: covers_def)
        qed
      qed
    qed
  qed
qed


lemma rle_iteration_flushes:
  "fst (rle_iteration lim pages npages k st) = 0 \<Longrightarrow>
     (length (rle_records (snd (rle_iteration lim pages npages k st)))
        = length (rle_records st) + 1) =
     ((k \<noteq> 0 \<and>
         page_to_phys (pages ! page_in st)
           \<noteq> (if base_page st = 0 then page_to_phys (pages ! page_in st) else base_page st)
               + of_nat (pages_seen st) * of_nat PAGE_SIZE)
      \<or> pages_seen st = PAGE_SIZE \<or> k = npages)"
  by (auto simp: rle_iteration_def Let_def errno_defs split: if_splits)

text \<open>
  What \<^verbatim>\<open>copy_sysmem_pages_rle_data\<close> does with the value \<open>limit\<close> it is given, which it
  compares with the number of records written.  For every allocation that it encodes,
  the records written for it cover exactly its pages: the sum over its records of the
  count field plus one is the number of pages of the allocation (and an allocation that
  is skipped gets no record).  One iteration writes a record exactly when the physical
  run breaks, the run has reached the cap of \<^verbatim>\<open>PAGE_SIZE\<close> pages, or the page list has
  ended.  The number of records written never exceeds \<open>limit\<close>, and \<open>-EOVERFLOW\<close> is
  returned with exactly \<open>limit\<close> records written.
\<close>

lemma copy_sysmem_pages_rle_data_covers:
  "copy_sysmem_pages_rle_data limit allocs = (ret, recs) \<Longrightarrow>
     (ret = 0 \<longrightarrow> length recs = length allocs \<and>
        (\<forall>i < length allocs. rle_total_pages (recs ! i) =
           (if sysmem_encoded (allocs ! i)
            then sysmem_npages (sa_alloc_size (allocs ! i)) else 0))) \<and>
     length (concat recs) \<le> limit \<and>
     (ret = - EOVERFLOW \<longrightarrow> length (concat recs) = limit) \<and>
     (ret = 0 \<or> ret = - ENOMEM \<or> ret = - EOVERFLOW) \<and>
     (fst (rle_iteration lim pages npages k st) = 0 \<longrightarrow>
        (length (rle_records (snd (rle_iteration lim pages npages k st)))
           = length (rle_records st) + 1) =
        ((k \<noteq> 0 \<and>
            page_to_phys (pages ! page_in st)
              \<noteq> (if base_page st = 0 then page_to_phys (pages ! page_in st)
                   else base_page st)
                  + of_nat (pages_seen st) * of_nat PAGE_SIZE)
         \<or> pages_seen st = PAGE_SIZE \<or> k = npages))"
proof -
  assume a: "copy_sysmem_pages_rle_data limit allocs = (ret, recs)"
  then have "copy_sysmem_allocs limit 0 allocs = (ret, recs)"
    by (simp add: copy_sysmem_pages_rle_data_def)
  from copy_sysmem_allocs_correct [OF this]
  have c: "ret = 0 \<or> ret = - ENOMEM \<or> ret = - EOVERFLOW" "length (concat recs) \<le> limit"
    "ret = - EOVERFLOW \<longrightarrow> length (concat recs) = limit"
    "ret = 0 \<longrightarrow> list_all2 covers allocs recs" by simp_all
  have "ret = 0 \<longrightarrow> length recs = length allocs \<and>
        (\<forall>i < length allocs. rle_total_pages (recs ! i) =
           (if sysmem_encoded (allocs ! i)
            then sysmem_npages (sa_alloc_size (allocs ! i)) else 0))"
    using c(4) by (auto simp: list_all2_conv_all_nth covers_def)
  with c rle_iteration_flushes [of lim pages npages k st] show ?thesis by blast
qed

lemma sample_allocs_encoded:
  "copy_sysmem_pages_rle_data 16 sample_allocs = (0, [[0x100001, 0x200000], []])"
  by (simp add: copy_sysmem_pages_rle_data_def sample_allocs_def sysmem_npages_def u32_def
       PAGE_SHIFT_def PAGE_SIZE_def drop_bit_eq_div rle_loop.simps rle_iteration_def Let_def
       page_to_phys_def push_bit_eq_mult errno_defs)

lemma sample_allocs_overflow:
  "copy_sysmem_pages_rle_data 1 sample_allocs = (- EOVERFLOW, [[0x100001]])"
  by (simp add: copy_sysmem_pages_rle_data_def sample_allocs_def sysmem_npages_def u32_def
       PAGE_SHIFT_def PAGE_SIZE_def drop_bit_eq_div rle_loop.simps rle_iteration_def Let_def
       page_to_phys_def push_bit_eq_mult errno_defs)

lemma copy_sysmem_pages_rle_data_covers_sample:
  "copy_sysmem_pages_rle_data 16 sample_allocs = (0, [[0x100001, 0x200000], []]) \<and>
   rle_total_pages [0x100001, 0x200000] = 3 \<and>
   sysmem_encoded (sample_allocs ! 0) \<and> sysmem_npages (sa_alloc_size (sample_allocs ! 0)) = 3 \<and>
   \<not> sysmem_encoded (sample_allocs ! 1) \<and>
   copy_sysmem_pages_rle_data 1 sample_allocs = (- EOVERFLOW, [[0x100001]]) \<and>
   length (concat [[0x100001 :: 64 word]]) = 1"
  using copy_sysmem_pages_rle_data_covers [OF sample_allocs_encoded]
    copy_sysmem_pages_rle_data_covers [OF sample_allocs_overflow]
    sample_allocs_encoded sample_allocs_overflow
  by (simp add: sample_allocs_def sysmem_encoded_def sysmem_npages_def u32_def PAGE_SHIFT_def
       drop_bit_eq_div rle_total_pages_def rle_record_pages_def mask_eq_exp_minus_1)

text \<open>
  The caller's reservation.  \<^verbatim>\<open>calculate_max_rle_data_size\<close> returns a number of bytes,
  eight for each page, and the assignment to the 32-bit \<^verbatim>\<open>sysmem_pages_rle_limit\<close>
  truncates it.  For the batch with \<open>2^29 - 2\<close> and \<open>3\<close> pages the byte count \<open>2^32 + 8\<close>
  becomes \<open>8\<close>: room for one record is added to the command size, which is \<open>104\<close>.
\<close>

lemma wrapping_limit:
  "sysmem_pages_rle_limit_of wrapping_create_env wrapping_alloc_info = 8"
  by (simp add: sysmem_pages_rle_limit_of_def wrapping_create_env_def wrapping_alloc_info_def
       first_is_sysmem_def allocation_sizes_def calculate_max_rle_data_size_def
       PAGE_SIZE_def sizeof_u64_def u32_def Let_def)

lemma wrapping_cmd_size:
  "create_allocation_cmd_size sample_consts wrapping_create_env wrapping_create_args
     wrapping_alloc_info 16 = 104"
  by (simp add: create_allocation_cmd_size_def wrapping_limit)
     (simp add: wrapping_alloc_info_def wrapping_create_args_def first_is_sysmem_def
        sample_consts_def u32_def wrapping_limit[unfolded wrapping_alloc_info_def])

lemma wrapping_records:
  "copy_sysmem_pages_rle_data 8 wrapping_sysmem_allocs
     = (0, [[], [0x100000, 0x200000, 0x300000]])"
  by (simp add: copy_sysmem_pages_rle_data_def wrapping_sysmem_allocs_def sysmem_npages_def
       u32_def PAGE_SHIFT_def PAGE_SIZE_def drop_bit_eq_div rle_loop.simps rle_iteration_def
       Let_def page_to_phys_def push_bit_eq_mult errno_defs)

lemma wrapping_create_run_value:
  "wrapping_create_run =
   (0, [Vzalloc 80, Vzalloc 64, Kzalloc 72,
        Send_sync_msg (Adapter_channel 7)
          \<lparr> pkt_msg = \<lparr> msg_size = 72, msg_on_heap = True, msg_ext_hdr = None,
                        msg_channel = Adapter_channel 7 \<rparr>,
            pkt_hdr = \<lparr> command_type = DXGK_VMBCOMMAND_GETALLOCATIONSIZE, process = 9,
                        command_id = 0, hdr_channel_type = DXGKVMB_VGPU_TO_HOST,
                        async_msg = False \<rparr>,
            pkt_object_count = 0, pkt_context_count = 0,
            pkt_payload = [Blob 8, Blob 16] \<rparr>,
        Kzalloc 104,
        Send_sync_msg (Adapter_channel 7)
          \<lparr> pkt_msg = \<lparr> msg_size = 104, msg_on_heap = True, msg_ext_hdr = None,
                        msg_channel = Adapter_channel 7 \<rparr>,
            pkt_hdr = \<lparr> command_type = DXGK_VMBCOMMAND_CREATEALLOCATION, process = 9,
                        command_id = 0, hdr_channel_type = DXGKVMB_VGPU_TO_HOST,
                        async_msg = False \<rparr>,
            pkt_object_count = 0, pkt_context_count = 0,
            pkt_payload = [Blob 32, Blob 0, Blob 16,
                           Values64 [0x100000, 0x200000, 0x300000]] \<rparr>])"
  unfolding wrapping_create_run_def dxgvmb_send_create_allocation_def
    create_allocation_send_def
  by (simp add: wrapping_alloc_info_def wrapping_create_env_def wrapping_create_args_def
        sample_consts_def sample_global_def
        wrapping_cmd_size[unfolded wrapping_alloc_info_def wrapping_create_env_def
          wrapping_create_args_def sample_consts_def]
        wrapping_limit[unfolded wrapping_alloc_info_def wrapping_create_env_def]
        wrapping_records[unfolded wrapping_sysmem_allocs_def]
        sample_adapter_def sysmem_check_fails_def first_is_sysmem_def allocation_sizes_def
        dxgvmb_send_get_allocation_size_def init_message_def ntstatus2int_def NT_SUCCESS_def
        command_vgpu_to_host_init2_def u32_def Let_def sizeof_u64_def sizeof_u32_def
        errno_defs)

text \<open>
  Claim C4.  The records that \<^verbatim>\<open>copy_sysmem_pages_rle_data\<close> writes are to stay inside
  the region the caller reserved for them, the function returning \<open>-EOVERFLOW\<close>
  otherwise.  The code does not do that.  The caller reserves
  \<^verbatim>\<open>sysmem_pages_rle_limit\<close> bytes, a byte count truncated to 32 bits, and the encoder
  compares the number of records with that same value.  For the batch whose sizes are
  \<open>0x1FFFFFFE000\<close> and \<open>0x3000\<close> bytes the reservation is \<open>8\<close> bytes, one record.  The
  encoder, given the limit \<open>8\<close>, writes the three records of the second allocation
  (\<open>24\<close> bytes) and returns \<open>0\<close>, and \<^verbatim>\<open>dxgvmb_send_create_allocation\<close> returns \<open>0\<close>
  after sending a create-allocation command whose message is \<open>104\<close> bytes long while the
  command structure and what was written after it take \<open>48 + 72 = 120\<close> bytes.
\<close>

theorem create_allocation_rle_overruns_reservation:
  "sysmem_pages_rle_limit_of wrapping_create_env wrapping_alloc_info = 8 \<and>
   copy_sysmem_pages_rle_data 8 wrapping_sysmem_allocs
     = (0, [[], [0x100000, 0x200000, 0x300000]]) \<and>
   sizeof_u64 * length (concat (snd (copy_sysmem_pages_rle_data 8 wrapping_sysmem_allocs))) = 24 \<and>
   fst wrapping_create_run = 0 \<and>
   map (command_type \<circ> pkt_hdr \<circ> snd) (sent_packets (snd wrapping_create_run))
     = [DXGK_VMBCOMMAND_GETALLOCATIONSIZE, DXGK_VMBCOMMAND_CREATEALLOCATION] \<and>
   msg_size (pkt_msg (snd (last (sent_packets (snd wrapping_create_run))))) = 104 \<and>
   pkt_payload (snd (last (sent_packets (snd wrapping_create_run))))
     = [Blob 32, Blob 0, Blob 16, Values64 [0x100000, 0x200000, 0x300000]] \<and>
   sizeof sample_consts Command_createallocation
     + payload_bytes (pkt_payload (snd (last (sent_packets (snd wrapping_create_run))))) = 120 \<and>
   msg_size (pkt_msg (snd (last (sent_packets (snd wrapping_create_run)))))
     < sizeof sample_consts Command_createallocation
       + payload_bytes (pkt_payload (snd (last (sent_packets (snd wrapping_create_run)))))"
  by (simp add: wrapping_limit wrapping_records wrapping_create_run_value sizeof_u64_def
        sample_consts_def payload_bytes_def)

subsection \<open>Packet size validation\<close>


lemma total_priv_drv_data_size_Inl:
  "total_priv_drv_data_size k acc as = Inl e \<Longrightarrow> e = - EOVERFLOW"
  by (induction k acc as rule: total_priv_drv_data_size.induct)
     (auto simp: Let_def split: if_splits)







lemma sample_create_early:
  "dxgvmb_send_create_allocation sample_consts nt_status_codes (sample_global False)
      sample_create_env (Some sample_adapter) 9
      \<lparr> ca_private_runtime_data_size = 131072, ca_priv_drv_data_size = 0 \<rparr> []
    = (- EOVERFLOW, [])"
  by (simp add: dxgvmb_send_create_allocation_def sample_consts_def)




subsection \<open>The system-memory check of allocation creation\<close>

lemma sysmem_check_fails_iff:
  "sysmem_check_fails alloc_info \<longleftrightarrow>
     (\<exists>i. 1 \<le> i \<and> i < length alloc_info \<and> ai_sysmem (alloc_info ! i) = 0)"
proof -
  have "sysmem_check_fails alloc_info \<longleftrightarrow>
          (\<exists>j < length (drop 1 alloc_info). ai_sysmem (drop 1 alloc_info ! j) = 0)"
    unfolding sysmem_check_fails_def list_ex_iff by (metis in_set_conv_nth)
  also have "\<dots> \<longleftrightarrow> (\<exists>i. 1 \<le> i \<and> i < length alloc_info \<and> ai_sysmem (alloc_info ! i) = 0)"
  proof
    assume "\<exists>j < length (drop 1 alloc_info). ai_sysmem (drop 1 alloc_info ! j) = 0"
    then obtain j where "j < length alloc_info - 1" "ai_sysmem (alloc_info ! (1 + j)) = 0"
      by auto
    then show "\<exists>i. 1 \<le> i \<and> i < length alloc_info \<and> ai_sysmem (alloc_info ! i) = 0"
      by (intro exI [of _ "1 + j"]) auto
  next
    assume "\<exists>i. 1 \<le> i \<and> i < length alloc_info \<and> ai_sysmem (alloc_info ! i) = 0"
    then obtain i where i: "1 \<le> i" "i < length alloc_info" "ai_sysmem (alloc_info ! i) = 0"
      by blast
    then have "i - 1 < length (drop 1 alloc_info)" "drop 1 alloc_info ! (i - 1) = alloc_info ! i"
      by auto
    with i(3) show "\<exists>j < length (drop 1 alloc_info). ai_sysmem (drop 1 alloc_info ! j) = 0"
      by metis
  qed
  finally show ?thesis .
qed

text \<open>
  Claim C5.  The sysmem tagging of a batch is to follow the first element: mixed
  batches are rejected before any host call, and batches that are all sysmem or all
  non-sysmem pass the check.  The loop of the code tests every element from index 1 on
  for a null \<^verbatim>\<open>sysmem\<close> pointer, whatever the first element is: a batch of two
  allocations that are both not system memory is rejected with \<open>-EINVAL\<close> (before any
  allocation or send), and a batch whose first element is not system memory and whose
  second is passes the check.
\<close>

theorem create_allocation_rejects_non_sysmem_batch:
  "dxgvmb_send_create_allocation sample_consts c g env adapter ph
      \<lparr> ca_private_runtime_data_size = 0, ca_priv_drv_data_size = 0 \<rparr>
      [\<lparr> ai_priv_drv_data_size = 16, ai_sysmem = 0 \<rparr>,
       \<lparr> ai_priv_drv_data_size = 0, ai_sysmem = 0 \<rparr>] = (- EINVAL, []) \<and>
   \<not> sysmem_check_fails
      [\<lparr> ai_priv_drv_data_size = 16, ai_sysmem = 0 \<rparr>,
       \<lparr> ai_priv_drv_data_size = 0, ai_sysmem = 0x7000 \<rparr>]"
  by (simp add: dxgvmb_send_create_allocation_def sample_consts_def sysmem_check_fails_def
        u32_def Let_def)

subsection \<open>The channel lock\<close>

lemma signal_sync_object_no_lock:
  "Acquire_channel_lock \<notin> set (snd (dxgvmb_send_signal_sync_object k c g env adapter ph a))"
  by (auto simp: dxgvmb_send_signal_sync_object_def Let_def dxgvmb_send_sync_msg_ntstatus_def
      split: prod.splits sum.splits if_splits dest: init_message_no_lock)

text \<open>
  Claim C9 (amended).  Within one call, the global-channel encoder
  \<^verbatim>\<open>dxgvmb_send_set_iospace_region\<close> sends only between taking and releasing the channel
  lock, and sends nothing when the lock is not obtained.  The adapter-channel encoder
  \<^verbatim>\<open>dxgvmb_send_signal_sync_object\<close> never takes the channel lock.
\<close>

theorem channel_lock_discipline:
  "(sent_packets (snd (dxgvmb_send_set_iospace_region k c g env)) \<noteq> [] \<longrightarrow>
      (\<exists>pre p. snd (dxgvmb_send_set_iospace_region k c g env)
                 = pre @ [Acquire_channel_lock, Kzalloc 4, Send_sync_msg Global_channel p,
                          Release_channel_lock] \<and>
               sent_packets pre = [] \<and> Acquire_channel_lock \<notin> set pre)) \<and>
   (ior_lock_ret env < 0 \<longrightarrow> sent_packets (snd (dxgvmb_send_set_iospace_region k c g env)) = []) \<and>
   Acquire_channel_lock \<notin> set (snd (dxgvmb_send_signal_sync_object k c g env' adapter ph a))"
proof -
  obtain ev r where im: "init_message k g (ior_kzalloc_ok env) None
      (sizeof k Command_setiospaceregion) = (ev, r)"
    by (cases "init_message k g (ior_kzalloc_ok env) None (sizeof k Command_setiospaceregion)")
  note ns = init_message_no_send [OF im] and nl = init_message_no_lock [OF im]
  have 1: "sent_packets (snd (dxgvmb_send_set_iospace_region k c g env)) \<noteq> [] \<longrightarrow>
      (\<exists>pre p. snd (dxgvmb_send_set_iospace_region k c g env)
                 = pre @ [Acquire_channel_lock, Kzalloc 4, Send_sync_msg Global_channel p,
                          Release_channel_lock] \<and>
               sent_packets pre = [] \<and> Acquire_channel_lock \<notin> set pre)"
    using im ns nl
    by (cases r) (auto simp: dxgvmb_send_set_iospace_region_def Let_def
          dxgvmb_send_sync_msg_ntstatus_def sent_packets_append)
  have 2: "ior_lock_ret env < 0 \<longrightarrow>
      sent_packets (snd (dxgvmb_send_set_iospace_region k c g env)) = []"
    using im ns
    by (cases r) (auto simp: dxgvmb_send_set_iospace_region_def Let_def)
  from 1 2 signal_sync_object_no_lock show ?thesis by blast
qed

theorem channel_lock_discipline_witness:
  "sent_packets (snd (dxgvmb_send_set_iospace_region sample_consts nt_status_codes
       (sample_global False)
       \<lparr> ior_kzalloc_ok = True, ior_lock_ret = 0, ior_transport = sample_transport \<rparr>)) \<noteq> [] \<and>
   (\<exists>pre p. snd (dxgvmb_send_set_iospace_region sample_consts nt_status_codes
       (sample_global False)
       \<lparr> ior_kzalloc_ok = True, ior_lock_ret = 0, ior_transport = sample_transport \<rparr>)
         = pre @ [Acquire_channel_lock, Kzalloc 4, Send_sync_msg Global_channel p,
                  Release_channel_lock]) \<and>
   (- 4 :: int) < 0 \<and>
   sent_packets (snd (dxgvmb_send_set_iospace_region sample_consts nt_status_codes
       (sample_global False)
       \<lparr> ior_kzalloc_ok = True, ior_lock_ret = - 4, ior_transport = sample_transport \<rparr>)) = []"
  using channel_lock_discipline [where k = sample_consts and c = nt_status_codes
      and g = "sample_global False"
      and env = "\<lparr> ior_kzalloc_ok = True, ior_lock_ret = 0, ior_transport = sample_transport \<rparr>"]
    channel_lock_discipline [where k = sample_consts and c = nt_status_codes
      and g = "sample_global False"
      and env = "\<lparr> ior_kzalloc_ok = True, ior_lock_ret = - 4,
                   ior_transport = sample_transport \<rparr>"]
  by (auto simp: dxgvmb_send_set_iospace_region_def init_message_def sample_consts_def
        sample_global_def Let_def dxgvmb_send_sync_msg_ntstatus_def)

text \<open>
  Claim C9 as stated fails: \<^verbatim>\<open>dxgvmb_send_signal_sync_object\<close> hands a packet to the
  transport and its trace holds no acquisition of the channel lock.
\<close>

theorem signal_sync_object_sends_without_lock:
  "sent_packets (snd (dxgvmb_send_signal_sync_object sample_consts nt_status_codes
       (sample_global False) sample_signal_env (Some sample_adapter) 9 small_signal)) \<noteq> [] \<and>
   Acquire_channel_lock \<notin> set (snd (dxgvmb_send_signal_sync_object sample_consts
       nt_status_codes (sample_global False) sample_signal_env (Some sample_adapter) 9
       small_signal))"
  by (simp add: dxgvmb_send_signal_sync_object_def signal_cmd_size_def small_signal_def
       sample_consts_def sample_global_def sample_signal_env_def sample_adapter_def
       sample_transport_def init_message_def dxgvmb_send_sync_msg_ntstatus_def Let_def u32_def
       sizeof_d3dkmthandle_def sizeof_u64_def)

subsection \<open>Hardware queue creation\<close>

lemma destroy_hwqueue_trace:
  "resource_events (snd (dxgvmb_send_destroy_hwqueue k c g ok t adapter ph h)) = []"
  by (auto simp: dxgvmb_send_destroy_hwqueue_def init_message_def
        dxgvmb_send_sync_msg_ntstatus_def Let_def split: prod.splits sum.splits if_splits)

lemma resource_events_append:
  "resource_events (xs @ ys) = resource_events xs @ resource_events ys"
  by (induction xs rule: resource_events.induct) simp_all

lemma resource_events_set:
  "Hmgr_free t h \<in> set es \<longleftrightarrow> Hmgr_free t h \<in> set (resource_events es)"
  "Vm_munmap a n \<in> set es \<longleftrightarrow> Vm_munmap a n \<in> set (resource_events es)"
  by (induction es rule: resource_events.induct) auto

lemma dxg_map_iospace_events:
  "dxg_map_iospace g env addr sz cached = (ev, Some va) \<Longrightarrow>
     Vm_munmap a n \<notin> set ev \<and> Hmgr_free t h \<notin> set ev \<and> sent_packets ev = []"
  by (auto simp: dxg_map_iospace_def Let_def split: if_splits prod.splits)

lemma dxg_map_iospace_events_any:
  "dxg_map_iospace g env addr sz cached = (ev, r) \<Longrightarrow>
     Hmgr_free t h \<notin> set ev \<and> sent_packets ev = []"
  by (auto simp: dxg_map_iospace_def dxg_unmap_iospace_def Let_def sent_packets_append
      split: if_splits prod.splits)

text \<open>The \<^verbatim>\<open>cleanup\<close> label, spelled out.\<close>

lemma create_hwqueue_cleanup_eq:
  "create_hwqueue_cleanup k c g env adapter ph cmdh ret ev hwq =
     (ret,
      (if ret < 0
       then ev @ (if hwq_handle hwq \<noteq> 0
                  then [Hmgr_free HMGRENTRY_TYPE_DXGHWQUEUE (hwq_handle hwq)] else [])
               @ (case cmdh of
                    None \<Rightarrow> []
                  | Some h \<Rightarrow>
                      if h \<noteq> 0
                      then snd (dxgvmb_send_destroy_hwqueue k c g (hq_destroy_kzalloc_ok env)
                                  (hq_destroy_transport env) adapter ph h)
                      else [])
       else ev),
      (if ret < 0 then hwq \<lparr> hwq_handle := 0 \<rparr> else hwq))"
  by (cases cmdh) (auto simp: create_hwqueue_cleanup_def Let_def)

lemma init_message_no_resource:
  "init_message k g ok adapter sz = (ev, r) \<Longrightarrow> resource_events ev = []"
  by (auto simp: init_message_def Let_def split: if_splits)

lemma destroy_hwqueue_packets:
  "(ch, p) \<in> set (sent_packets (snd (dxgvmb_send_destroy_hwqueue k c g ok t adapter ph h)))
     \<Longrightarrow> command_type (pkt_hdr p) = DXGK_VMBCOMMAND_DESTROYHWQUEUE"
  by (auto simp: dxgvmb_send_destroy_hwqueue_def init_message_def
        dxgvmb_send_sync_msg_ntstatus_def command_vgpu_to_host_init2_def Let_def
      split: prod.splits sum.splits if_splits)

lemma create_hwqueue_handle_cleared:
  assumes r: "dxgvmb_send_create_hwqueue k c g env adapter ph args hwqueue = (ret, tr, hwq')"
    and neg: "ret < 0"
  shows "hwq_handle hwq' = 0"
  using r neg unfolding dxgvmb_send_create_hwqueue_def Let_def
  by (auto simp: create_hwqueue_cleanup_eq errno_defs
      split: if_splits prod.splits sum.splits)


lemma create_hwqueue_no_fence_free:
  assumes r: "dxgvmb_send_create_hwqueue k c g env adapter ph args hwqueue = (ret, tr, hwq')"
  shows "Hmgr_free HMGRENTRY_TYPE_MONITOREDFENCE h \<notin> set tr"
proof -
  have d: "\<And>h'. Hmgr_free HMGRENTRY_TYPE_MONITOREDFENCE h \<notin> set (snd
      (dxgvmb_send_destroy_hwqueue k c g (hq_destroy_kzalloc_ok env) (hq_destroy_transport env)
         adapter ph h'))"
    using destroy_hwqueue_trace [of k c g _ _ adapter ph] by (simp add: resource_events_set(1))
  have i: "\<And>sz ev r. init_message k g (hq_kzalloc_ok env) adapter sz = (ev, r)
      \<Longrightarrow> Hmgr_free HMGRENTRY_TYPE_MONITOREDFENCE h \<notin> set ev"
    using init_message_no_resource by (simp add: resource_events_set(1))
  show ?thesis
    using r d i unfolding dxgvmb_send_create_hwqueue_def Let_def
    by (auto simp: create_hwqueue_cleanup_eq
        split: if_splits prod.splits sum.splits option.splits
        dest: dxg_map_iospace_events_any)
qed


lemma destroy_hwqueue_sends:
  "ok \<Longrightarrow> \<exists>ch p. sent_packets (snd (dxgvmb_send_destroy_hwqueue k c g ok t adapter ph h))
                      = [(ch, p)] \<and>
                    command_type (pkt_hdr p) = DXGK_VMBCOMMAND_DESTROYHWQUEUE \<and>
                    pkt_payload p = [Handles [h]]"
  by (auto simp: dxgvmb_send_destroy_hwqueue_def init_message_def
        dxgvmb_send_sync_msg_ntstatus_def command_vgpu_to_host_init2_def Let_def)

lemma create_hwqueue_cleanup_ret:
  "create_hwqueue_cleanup k c g env adapter ph cmdh ret ev hwq = (r, tr, hwq') \<Longrightarrow> r = ret"
  by (simp add: create_hwqueue_cleanup_eq)

lemma create_hwqueue_cleanup_destroys:
  assumes "create_hwqueue_cleanup k c g env adapter ph (Some h) ret ev hwq = (ret, tr, hwq')"
    and "ret < 0" and "h \<noteq> 0"
  shows "\<exists>pre. tr = pre @ snd (dxgvmb_send_destroy_hwqueue k c g (hq_destroy_kzalloc_ok env)
                               (hq_destroy_transport env) adapter ph h) \<and>
               sent_packets pre = sent_packets ev"
proof (cases "hwq_handle hwq \<noteq> 0")
  case True
  with assms have "tr = (ev @ [Hmgr_free HMGRENTRY_TYPE_DXGHWQUEUE (hwq_handle hwq)])
      @ snd (dxgvmb_send_destroy_hwqueue k c g (hq_destroy_kzalloc_ok env)
               (hq_destroy_transport env) adapter ph h)"
    by (simp add: create_hwqueue_cleanup_eq)
  moreover have "sent_packets (ev @ [Hmgr_free HMGRENTRY_TYPE_DXGHWQUEUE (hwq_handle hwq)])
      = sent_packets ev"
    by (simp add: sent_packets_append)
  ultimately show ?thesis by blast
next
  case False
  with assms have "tr = ev
      @ snd (dxgvmb_send_destroy_hwqueue k c g (hq_destroy_kzalloc_ok env)
               (hq_destroy_transport env) adapter ph h)"
    by (simp add: create_hwqueue_cleanup_eq)
  then show ?thesis by blast
qed

text \<open>
  A failed call that has sent the create command and whose command buffer holds a
  non-zero queue handle ends with the call of \<^verbatim>\<open>dxgvmb_send_destroy_hwqueue\<close> for that
  handle; the create command is the only packet sent before it.
\<close>

lemma create_hwqueue_compensates:
  assumes r: "dxgvmb_send_create_hwqueue k c g env adapter ph args hwqueue = (ret, tr, hwq')"
    and neg: "ret < 0" and sent: "sent_packets tr \<noteq> []"
    and h: "rp_hwqueue (hq_reply env) \<noteq> 0"
  shows "\<exists>pre ch p.
           tr = pre @ snd (dxgvmb_send_destroy_hwqueue k c g (hq_destroy_kzalloc_ok env)
                            (hq_destroy_transport env) adapter ph (rp_hwqueue (hq_reply env))) \<and>
           sent_packets pre = [(ch, p)] \<and>
           command_type (pkt_hdr p) = DXGK_VMBCOMMAND_CREATEHWQUEUE"
proof -
  define P where "P \<longleftrightarrow> (\<exists>pre ch p.
           tr = pre @ snd (dxgvmb_send_destroy_hwqueue k c g (hq_destroy_kzalloc_ok env)
                            (hq_destroy_transport env) adapter ph (rp_hwqueue (hq_reply env))) \<and>
           sent_packets pre = [(ch, p)] \<and>
           command_type (pkt_hdr p) = DXGK_VMBCOMMAND_CREATEHWQUEUE)"
  have i: "\<And>sz ev r. init_message k g (hq_kzalloc_ok env) adapter sz = (ev, r)
      \<Longrightarrow> sent_packets ev = []"
    by (rule init_message_no_send)
  have m: "\<And>mev va. dxg_map_iospace g (hq_mm env)
      (rp_hwqueue_progress_fence_cpuva (hq_reply env)) PAGE_SIZE True = (mev, va)
      \<Longrightarrow> sent_packets mev = []"
    using dxg_map_iospace_events_any by blast
  have n: "\<And>cmdh r0 ev hwq. create_hwqueue_cleanup k c g env adapter ph cmdh r0 ev hwq
       = (ret, tr, hwq') \<Longrightarrow> cmdh = None \<or> cmdh = Some 0 \<Longrightarrow> sent_packets ev = [] \<Longrightarrow> P"
    using sent by (auto simp: create_hwqueue_cleanup_eq sent_packets_append split: if_splits)
  have A: "\<And>r0 ev hwq.
      create_hwqueue_cleanup k c g env adapter ph (Some (rp_hwqueue (hq_reply env))) r0 ev hwq
        = (ret, tr, hwq') \<Longrightarrow>
      map (command_type \<circ> pkt_hdr \<circ> snd) (sent_packets ev)
        = [DXGK_VMBCOMMAND_CREATEHWQUEUE] \<Longrightarrow> P"
  proof -
    fix r0 ev hwq
    assume cl: "create_hwqueue_cleanup k c g env adapter ph (Some (rp_hwqueue (hq_reply env)))
        r0 ev hwq = (ret, tr, hwq')"
      and s: "map (command_type \<circ> pkt_hdr \<circ> snd) (sent_packets ev)
        = [DXGK_VMBCOMMAND_CREATEHWQUEUE]"
    from s obtain ch p where s': "sent_packets ev = [(ch, p)]"
      "command_type (pkt_hdr p) = DXGK_VMBCOMMAND_CREATEHWQUEUE"
      by (cases "sent_packets ev") auto
    from create_hwqueue_cleanup_ret [OF cl] have "r0 = ret" by simp
    with cl have "create_hwqueue_cleanup k c g env adapter ph
        (Some (rp_hwqueue (hq_reply env))) ret ev hwq = (ret, tr, hwq')" by simp
    from create_hwqueue_cleanup_destroys [OF this neg h] s'
    show P unfolding P_def by auto
  qed
  have C: "\<And>cmdh r0 ev hwq. create_hwqueue_cleanup k c g env adapter ph cmdh r0 ev hwq
       = (ret, tr, hwq') \<Longrightarrow>
     ((cmdh = None \<or> cmdh = Some 0) \<and> sent_packets ev = [] \<longrightarrow> P) \<and>
     (cmdh = Some (rp_hwqueue (hq_reply env)) \<and>
      map (command_type \<circ> pkt_hdr \<circ> snd) (sent_packets ev)
        = [DXGK_VMBCOMMAND_CREATEHWQUEUE] \<longrightarrow> P)"
    using n A by (auto simp del: map_eq_Cons_conv)
  have P
    using r unfolding dxgvmb_send_create_hwqueue_def Let_def
    by (auto simp: sent_packets_append command_vgpu_to_host_init2_def
        split: if_splits prod.splits sum.splits
        dest!: i m C)
  then show ?thesis unfolding P_def .
qed

text \<open>
  When the compensating call obtains its message buffer, the packets of the failed call
  are the create command followed by one destroy command that carries the queue handle
  the host returned.
\<close>

lemma create_hwqueue_destroy_packet:
  assumes r: "dxgvmb_send_create_hwqueue k c g env adapter ph args hwqueue = (ret, tr, hwq')"
    and neg: "ret < 0" and sent: "sent_packets tr \<noteq> []"
    and h: "rp_hwqueue (hq_reply env) \<noteq> 0"
    and ok: "hq_destroy_kzalloc_ok env"
  shows "\<exists>ch p ch' p'.
           sent_packets tr = [(ch, p), (ch', p')] \<and>
           command_type (pkt_hdr p) = DXGK_VMBCOMMAND_CREATEHWQUEUE \<and>
           command_type (pkt_hdr p') = DXGK_VMBCOMMAND_DESTROYHWQUEUE \<and>
           pkt_payload p' = [Handles [rp_hwqueue (hq_reply env)]]"
proof -
  from create_hwqueue_compensates [OF r neg sent h]
  obtain pre ch p where
    t: "tr = pre @ snd (dxgvmb_send_destroy_hwqueue k c g (hq_destroy_kzalloc_ok env)
                          (hq_destroy_transport env) adapter ph (rp_hwqueue (hq_reply env)))"
    and p: "sent_packets pre = [(ch, p)]"
      "command_type (pkt_hdr p) = DXGK_VMBCOMMAND_CREATEHWQUEUE"
    by blast
  from destroy_hwqueue_sends [OF ok, of k c g "hq_destroy_transport env" adapter ph
      "rp_hwqueue (hq_reply env)"]
  obtain ch' p' where
    d: "sent_packets (snd (dxgvmb_send_destroy_hwqueue k c g (hq_destroy_kzalloc_ok env)
          (hq_destroy_transport env) adapter ph (rp_hwqueue (hq_reply env)))) = [(ch', p')]"
      "command_type (pkt_hdr p') = DXGK_VMBCOMMAND_DESTROYHWQUEUE"
      "pkt_payload p' = [Handles [rp_hwqueue (hq_reply env)]]"
    by blast
  have "sent_packets tr = [(ch, p), (ch', p')]"
    unfolding t by (simp add: sent_packets_append p(1) d(1))
  with p(2) d(2,3) show ?thesis by blast
qed

text \<open>
  The progress-fence placeholder that was registered is the handle the host returned, and
  it is what \<^verbatim>\<open>hwqueue->progress_fence_sync_object\<close> holds on return.
\<close>

lemma create_hwqueue_keeps_fence:
  assumes r: "dxgvmb_send_create_hwqueue k c g env adapter ph args hwqueue = (ret, tr, hwq')"
    and reg: "Hmgr_assign HMGRENTRY_TYPE_MONITOREDFENCE f \<in> set tr"
  shows "f = rp_hwqueue_progress_fence (hq_reply env) \<and>
         progress_fence_sync_object hwq' = rp_hwqueue_progress_fence (hq_reply env)"
proof -
  have i: "\<And>sz ev r. init_message k g (hq_kzalloc_ok env) adapter sz = (ev, r)
      \<Longrightarrow> Hmgr_assign HMGRENTRY_TYPE_MONITOREDFENCE f \<notin> set ev"
    by (auto simp: init_message_def Let_def split: if_splits)
  have d: "\<And>h'. Hmgr_assign HMGRENTRY_TYPE_MONITOREDFENCE f \<notin> set (snd
      (dxgvmb_send_destroy_hwqueue k c g (hq_destroy_kzalloc_ok env) (hq_destroy_transport env)
         adapter ph h'))"
    by (auto simp: dxgvmb_send_destroy_hwqueue_def init_message_def
        dxgvmb_send_sync_msg_ntstatus_def Let_def split: prod.splits sum.splits if_splits)
  have m: "\<And>mev va. dxg_map_iospace g (hq_mm env)
      (rp_hwqueue_progress_fence_cpuva (hq_reply env)) PAGE_SIZE True = (mev, va)
      \<Longrightarrow> Hmgr_assign HMGRENTRY_TYPE_MONITOREDFENCE f \<notin> set mev"
    by (auto simp: dxg_map_iospace_def dxg_unmap_iospace_def Let_def
        split: if_splits prod.splits)
  show ?thesis
    using r reg i d m unfolding dxgvmb_send_create_hwqueue_def Let_def
    by (auto simp: create_hwqueue_cleanup_eq
        split: if_splits prod.splits sum.splits)
qed

lemma create_hwqueue_frees_queue_entry:
  assumes r: "dxgvmb_send_create_hwqueue k c g env adapter ph args hwqueue = (ret, tr, hwq')"
    and neg: "ret < 0"
    and reg: "Hmgr_assign HMGRENTRY_TYPE_MONITOREDFENCE f \<in> set tr"
    and h: "rp_hwqueue (hq_reply env) \<noteq> 0"
  shows "Hmgr_free HMGRENTRY_TYPE_DXGHWQUEUE (rp_hwqueue (hq_reply env)) \<in> set tr"
proof -
  have i: "\<And>sz ev r. init_message k g (hq_kzalloc_ok env) adapter sz = (ev, r)
      \<Longrightarrow> Hmgr_assign HMGRENTRY_TYPE_MONITOREDFENCE f \<notin> set ev"
    by (auto simp: init_message_def Let_def split: if_splits)
  have d: "\<And>h'. Hmgr_assign HMGRENTRY_TYPE_MONITOREDFENCE f \<notin> set (snd
      (dxgvmb_send_destroy_hwqueue k c g (hq_destroy_kzalloc_ok env) (hq_destroy_transport env)
         adapter ph h'))"
    by (auto simp: dxgvmb_send_destroy_hwqueue_def init_message_def
        dxgvmb_send_sync_msg_ntstatus_def Let_def split: prod.splits sum.splits if_splits)
  show ?thesis
    using r neg reg h i d unfolding dxgvmb_send_create_hwqueue_def Let_def
    by (auto simp: create_hwqueue_cleanup_eq errno_defs
        split: if_splits prod.splits sum.splits)
qed

lemma create_hwqueue_keeps_mapping:
  assumes r: "dxgvmb_send_create_hwqueue k c g env adapter ph args hwqueue = (ret, tr, hwq')"
    and reg: "Hmgr_assign HMGRENTRY_TYPE_MONITOREDFENCE f \<in> set tr"
    and m: "snd (dxg_map_iospace g (hq_mm env)
                   (rp_hwqueue_progress_fence_cpuva (hq_reply env)) PAGE_SIZE True) = Some va"
  shows "progress_fence_mapped_address hwq' = Some va \<and> Vm_munmap a n \<notin> set tr"
proof -
  have i: "\<And>sz ev r. init_message k g (hq_kzalloc_ok env) adapter sz = (ev, r)
      \<Longrightarrow> Hmgr_assign HMGRENTRY_TYPE_MONITOREDFENCE f \<notin> set ev \<and> Vm_munmap a n \<notin> set ev"
    by (auto simp: init_message_def Let_def split: if_splits)
  have d: "\<And>h'. Hmgr_assign HMGRENTRY_TYPE_MONITOREDFENCE f \<notin> set (snd
      (dxgvmb_send_destroy_hwqueue k c g (hq_destroy_kzalloc_ok env) (hq_destroy_transport env)
         adapter ph h')) \<and> Vm_munmap a n \<notin> set (snd
      (dxgvmb_send_destroy_hwqueue k c g (hq_destroy_kzalloc_ok env) (hq_destroy_transport env)
         adapter ph h'))"
    by (auto simp: dxgvmb_send_destroy_hwqueue_def init_message_def
        dxgvmb_send_sync_msg_ntstatus_def Let_def split: prod.splits sum.splits if_splits)
  obtain mev where me: "dxg_map_iospace g (hq_mm env)
      (rp_hwqueue_progress_fence_cpuva (hq_reply env)) PAGE_SIZE True = (mev, Some va)"
    using m by (cases "dxg_map_iospace g (hq_mm env)
      (rp_hwqueue_progress_fence_cpuva (hq_reply env)) PAGE_SIZE True") simp
  have mu: "Vm_munmap a n \<notin> set mev"
    using dxg_map_iospace_events [OF me] by blast
  show ?thesis
    using r reg me mu i d unfolding dxgvmb_send_create_hwqueue_def Let_def
    by (auto simp: create_hwqueue_cleanup_eq
        split: if_splits prod.splits sum.splits)
qed

lemma sample_hwqueue_run_value:
  "sample_hwqueue_run =
    (- EINVAL,
     [Send_sync_msg (Adapter_channel 7)
       \<lparr> pkt_msg = \<lparr> msg_size = 48, msg_on_heap = False, msg_ext_hdr = None,
                     msg_channel = Adapter_channel 7 \<rparr>,
         pkt_hdr = \<lparr> command_type = DXGK_VMBCOMMAND_CREATEHWQUEUE, process = 9,
                     command_id = 0, hdr_channel_type = DXGKVMB_VGPU_TO_HOST,
                     async_msg = False \<rparr>,
         pkt_object_count = 0, pkt_context_count = 0, pkt_payload = [Blob 0] \<rparr>,
      Hmgr_assign HMGRENTRY_TYPE_DXGHWQUEUE 0x40000011,
      Hmgr_assign HMGRENTRY_TYPE_MONITOREDFENCE 0x40000022,
      Vm_mmap 4096, Io_remap_pfn_range 0x100001 4096,
      Hmgr_free HMGRENTRY_TYPE_DXGHWQUEUE 0x40000011,
      Kzalloc 4,
      Send_sync_msg (Adapter_channel 7)
       \<lparr> pkt_msg = \<lparr> msg_size = 48, msg_on_heap = False, msg_ext_hdr = None,
                     msg_channel = Adapter_channel 7 \<rparr>,
         pkt_hdr = \<lparr> command_type = DXGK_VMBCOMMAND_DESTROYHWQUEUE, process = 9,
                     command_id = 0, hdr_channel_type = DXGKVMB_VGPU_TO_HOST,
                     async_msg = False \<rparr>,
         pkt_object_count = 0, pkt_context_count = 0,
         pkt_payload = [Handles [0x40000011]] \<rparr>],
     \<lparr> hwq_handle = 0, progress_fence_sync_object = 0x40000022,
       progress_fence_mapped_address = Some 0x7f0000000000 \<rparr>)"
  by (simp add: sample_hwqueue_run_def dxgvmb_send_create_hwqueue_def
        create_hwqueue_cleanup_def dxgvmb_send_destroy_hwqueue_def sample_hwqueue_env_def
        sample_hwqueue_def sample_consts_def sample_global_def sample_adapter_def
        sample_transport_def init_message_def dxgvmb_send_sync_msg_ntstatus_def
        dxg_map_iospace_def check_iospace_address_def ntstatus2int_def NT_SUCCESS_def
        command_vgpu_to_host_init2_def PAGE_SIZE_def PAGE_SHIFT_def drop_bit_eq_div
        Let_def u32_def errno_defs)

text \<open>
  Claim C6 (amended).  When \<^verbatim>\<open>dxgvmb_send_create_hwqueue\<close> fails, \<^verbatim>\<open>hwqueue->handle\<close> is
  zero on return.  If the create command was sent and the command buffer holds a
  non-zero hardware-queue handle, the last thing the encoder does is the call of
  \<^verbatim>\<open>dxgvmb_send_destroy_hwqueue\<close> for exactly that handle, and the create command is the
  only packet sent before it; when that call obtains its message buffer, the packets of
  the run are the create command and one destroy command whose payload is that handle.
  If the failure comes after both handle-table registrations, the queue's entry is
  removed.  The encoder itself never removes the progress-fence placeholder entry: the
  entry that was registered is the handle the host returned, and it stays recorded in
  \<^verbatim>\<open>hwqueue->progress_fence_sync_object\<close>.  A progress-fence mapping that was established
  stays mapped and recorded in \<^verbatim>\<open>hwqueue->progress_fence_mapped_address\<close>.
\<close>

theorem create_hwqueue_failure_unwind:
  assumes "dxgvmb_send_create_hwqueue k c g env adapter ph args hwqueue = (ret, tr, hwq')"
    and "ret < 0"
  shows "hwq_handle hwq' = 0 \<and>
    (sent_packets tr \<noteq> [] \<and> rp_hwqueue (hq_reply env) \<noteq> 0 \<longrightarrow>
       (\<exists>pre ch p.
          tr = pre @ snd (dxgvmb_send_destroy_hwqueue k c g (hq_destroy_kzalloc_ok env)
                           (hq_destroy_transport env) adapter ph (rp_hwqueue (hq_reply env))) \<and>
          sent_packets pre = [(ch, p)] \<and>
          command_type (pkt_hdr p) = DXGK_VMBCOMMAND_CREATEHWQUEUE)) \<and>
    (sent_packets tr \<noteq> [] \<and> rp_hwqueue (hq_reply env) \<noteq> 0 \<and> hq_destroy_kzalloc_ok env \<longrightarrow>
       (\<exists>ch p ch' p'.
          sent_packets tr = [(ch, p), (ch', p')] \<and>
          command_type (pkt_hdr p) = DXGK_VMBCOMMAND_CREATEHWQUEUE \<and>
          command_type (pkt_hdr p') = DXGK_VMBCOMMAND_DESTROYHWQUEUE \<and>
          pkt_payload p' = [Handles [rp_hwqueue (hq_reply env)]])) \<and>
    (Hmgr_assign HMGRENTRY_TYPE_MONITOREDFENCE f \<in> set tr \<and> rp_hwqueue (hq_reply env) \<noteq> 0
       \<longrightarrow> Hmgr_free HMGRENTRY_TYPE_DXGHWQUEUE (rp_hwqueue (hq_reply env)) \<in> set tr) \<and>
    Hmgr_free HMGRENTRY_TYPE_MONITOREDFENCE h \<notin> set tr \<and>
    (Hmgr_assign HMGRENTRY_TYPE_MONITOREDFENCE f \<in> set tr
       \<longrightarrow> f = rp_hwqueue_progress_fence (hq_reply env) \<and>
           progress_fence_sync_object hwq' = rp_hwqueue_progress_fence (hq_reply env)) \<and>
    (Hmgr_assign HMGRENTRY_TYPE_MONITOREDFENCE f \<in> set tr \<and>
     snd (dxg_map_iospace g (hq_mm env) (rp_hwqueue_progress_fence_cpuva (hq_reply env))
            PAGE_SIZE True) = Some va
       \<longrightarrow> progress_fence_mapped_address hwq' = Some va \<and> Vm_munmap a n \<notin> set tr)"
proof -
  note run = assms(1) and neg = assms(2)
  have 1: "hwq_handle hwq' = 0"
    by (rule create_hwqueue_handle_cleared [OF run neg])
  have 2: "sent_packets tr \<noteq> [] \<and> rp_hwqueue (hq_reply env) \<noteq> 0 \<longrightarrow>
       (\<exists>pre ch p.
          tr = pre @ snd (dxgvmb_send_destroy_hwqueue k c g (hq_destroy_kzalloc_ok env)
                           (hq_destroy_transport env) adapter ph (rp_hwqueue (hq_reply env))) \<and>
          sent_packets pre = [(ch, p)] \<and>
          command_type (pkt_hdr p) = DXGK_VMBCOMMAND_CREATEHWQUEUE)"
    using create_hwqueue_compensates [OF run neg] by blast
  have 3: "sent_packets tr \<noteq> [] \<and> rp_hwqueue (hq_reply env) \<noteq> 0 \<and> hq_destroy_kzalloc_ok env \<longrightarrow>
       (\<exists>ch p ch' p'.
          sent_packets tr = [(ch, p), (ch', p')] \<and>
          command_type (pkt_hdr p) = DXGK_VMBCOMMAND_CREATEHWQUEUE \<and>
          command_type (pkt_hdr p') = DXGK_VMBCOMMAND_DESTROYHWQUEUE \<and>
          pkt_payload p' = [Handles [rp_hwqueue (hq_reply env)]])"
    using create_hwqueue_destroy_packet [OF run neg] by blast
  have 4: "Hmgr_assign HMGRENTRY_TYPE_MONITOREDFENCE f \<in> set tr \<and> rp_hwqueue (hq_reply env) \<noteq> 0
       \<longrightarrow> Hmgr_free HMGRENTRY_TYPE_DXGHWQUEUE (rp_hwqueue (hq_reply env)) \<in> set tr"
    using create_hwqueue_frees_queue_entry [OF run neg] by blast
  have 5: "Hmgr_free HMGRENTRY_TYPE_MONITOREDFENCE h \<notin> set tr"
    by (rule create_hwqueue_no_fence_free [OF run])
  have 6: "Hmgr_assign HMGRENTRY_TYPE_MONITOREDFENCE f \<in> set tr
       \<longrightarrow> f = rp_hwqueue_progress_fence (hq_reply env) \<and>
           progress_fence_sync_object hwq' = rp_hwqueue_progress_fence (hq_reply env)"
    using create_hwqueue_keeps_fence [OF run] by blast
  have 7: "Hmgr_assign HMGRENTRY_TYPE_MONITOREDFENCE f \<in> set tr \<and>
     snd (dxg_map_iospace g (hq_mm env) (rp_hwqueue_progress_fence_cpuva (hq_reply env))
            PAGE_SIZE True) = Some va
       \<longrightarrow> progress_fence_mapped_address hwq' = Some va \<and> Vm_munmap a n \<notin> set tr"
    using create_hwqueue_keeps_mapping [OF run] by blast
  from 1 2 3 4 5 6 7 show ?thesis by (intro conjI)
qed

theorem create_hwqueue_failure_unwind_witness:
  "fst sample_hwqueue_run < 0 \<and>
   hwq_handle (snd (snd sample_hwqueue_run)) = 0 \<and>
   sent_packets (fst (snd sample_hwqueue_run)) \<noteq> [] \<and>
   rp_hwqueue (hq_reply sample_hwqueue_env) = 0x40000011 \<and>
   hq_destroy_kzalloc_ok sample_hwqueue_env \<and>
   map (command_type \<circ> pkt_hdr \<circ> snd) (sent_packets (fst (snd sample_hwqueue_run)))
     = [DXGK_VMBCOMMAND_CREATEHWQUEUE, DXGK_VMBCOMMAND_DESTROYHWQUEUE] \<and>
   pkt_payload (snd (last (sent_packets (fst (snd sample_hwqueue_run)))))
     = [Handles [0x40000011]] \<and>
   Hmgr_assign HMGRENTRY_TYPE_MONITOREDFENCE 0x40000022 \<in> set (fst (snd sample_hwqueue_run)) \<and>
   Hmgr_free HMGRENTRY_TYPE_DXGHWQUEUE 0x40000011 \<in> set (fst (snd sample_hwqueue_run)) \<and>
   Hmgr_free HMGRENTRY_TYPE_MONITOREDFENCE 0x40000022 \<notin> set (fst (snd sample_hwqueue_run)) \<and>
   progress_fence_sync_object (snd (snd sample_hwqueue_run)) = 0x40000022 \<and>
   progress_fence_mapped_address (snd (snd sample_hwqueue_run)) = Some 0x7f0000000000"
proof -
  have run: "dxgvmb_send_create_hwqueue sample_consts nt_status_codes (sample_global False)
      sample_hwqueue_env (Some sample_adapter) 9
      \<lparr> hq_priv_drv_data_size = 0, hq_context = 5 \<rparr> sample_hwqueue
    = (fst sample_hwqueue_run, fst (snd sample_hwqueue_run), snd (snd sample_hwqueue_run))"
    by (simp add: sample_hwqueue_run_def)
  have neg: "fst sample_hwqueue_run < 0"
    by (simp add: sample_hwqueue_run_value errno_defs)
  have reply: "rp_hwqueue (hq_reply sample_hwqueue_env) = 0x40000011"
    "hq_destroy_kzalloc_ok sample_hwqueue_env"
    by (simp_all add: sample_hwqueue_env_def)
  have sent: "sent_packets (fst (snd sample_hwqueue_run)) \<noteq> []"
    by (simp add: sample_hwqueue_run_value)
  have reg: "Hmgr_assign HMGRENTRY_TYPE_MONITOREDFENCE 0x40000022
      \<in> set (fst (snd sample_hwqueue_run))"
    by (simp add: sample_hwqueue_run_value)
  have m: "snd (dxg_map_iospace (sample_global False) (hq_mm sample_hwqueue_env)
      (rp_hwqueue_progress_fence_cpuva (hq_reply sample_hwqueue_env)) PAGE_SIZE True)
      = Some 0x7f0000000000"
    by (simp add: sample_hwqueue_env_def sample_global_def dxg_map_iospace_def
        check_iospace_address_def PAGE_SIZE_def PAGE_SHIFT_def drop_bit_eq_div Let_def)
  have nz: "rp_hwqueue (hq_reply sample_hwqueue_env) \<noteq> 0"
    by (simp add: sample_hwqueue_env_def)
  note unwind = create_hwqueue_failure_unwind [OF run neg,
      where f = "0x40000022" and h = "0x40000022" and va = "0x7f0000000000"
        and a = 0 and n = 0]
  from unwind sent nz reply(2) obtain ch p ch' p' where
    pk: "sent_packets (fst (snd sample_hwqueue_run)) = [(ch, p), (ch', p')]"
      "command_type (pkt_hdr p) = DXGK_VMBCOMMAND_CREATEHWQUEUE"
      "command_type (pkt_hdr p') = DXGK_VMBCOMMAND_DESTROYHWQUEUE"
      "pkt_payload p' = [Handles [rp_hwqueue (hq_reply sample_hwqueue_env)]]"
    by blast
  from unwind reg nz m have
    u: "hwq_handle (snd (snd sample_hwqueue_run)) = 0"
      "Hmgr_free HMGRENTRY_TYPE_DXGHWQUEUE (rp_hwqueue (hq_reply sample_hwqueue_env))
         \<in> set (fst (snd sample_hwqueue_run))"
      "Hmgr_free HMGRENTRY_TYPE_MONITOREDFENCE 0x40000022
         \<notin> set (fst (snd sample_hwqueue_run))"
      "progress_fence_sync_object (snd (snd sample_hwqueue_run))
         = rp_hwqueue_progress_fence (hq_reply sample_hwqueue_env)"
      "progress_fence_mapped_address (snd (snd sample_hwqueue_run)) = Some 0x7f0000000000"
    by blast+
  have fence: "rp_hwqueue_progress_fence (hq_reply sample_hwqueue_env) = 0x40000022"
    by (simp add: sample_hwqueue_env_def)
  from pk u neg reply sent reg fence show ?thesis by simp
qed

text \<open>
  Claim C6 as stated fails: in the sample run the encoder fails with \<open>-EINVAL\<close> after
  the host returned the queue handle.  It removes the queue's handle-table entry and
  sends the destroy command, but the progress-fence placeholder entry is not removed
  and the progress-fence mapping is not unmapped.
\<close>

theorem create_hwqueue_leaves_fence_and_mapping:
  "fst sample_hwqueue_run = - EINVAL \<and>
   resource_events (fst (snd sample_hwqueue_run)) =
     [Hmgr_assign HMGRENTRY_TYPE_DXGHWQUEUE 0x40000011,
      Hmgr_assign HMGRENTRY_TYPE_MONITOREDFENCE 0x40000022,
      Vm_mmap 4096, Io_remap_pfn_range 0x100001 4096,
      Hmgr_free HMGRENTRY_TYPE_DXGHWQUEUE 0x40000011] \<and>
   map (command_type \<circ> pkt_hdr \<circ> snd) (sent_packets (fst (snd sample_hwqueue_run)))
     = [DXGK_VMBCOMMAND_CREATEHWQUEUE, DXGK_VMBCOMMAND_DESTROYHWQUEUE] \<and>
   snd (snd sample_hwqueue_run) =
     \<lparr> hwq_handle = 0, progress_fence_sync_object = 0x40000022,
       progress_fence_mapped_address = Some 0x7f0000000000 \<rparr>"
  by (simp add: sample_hwqueue_run_value)

end
